theory Spec2Isabelle
  imports Complex_Main
begin

section \<open>Conventions of the embedding\<close>

text \<open>
  The program is TypeScript on top of three.js. Its numbers are IEEE doubles; the
  embedding reads them as mathematical reals, so rounding, infinities and NaN are not
  part of the model, and every statement below is about the arithmetic the code writes
  down, carried out exactly. Integer quantities of the code (array indices, loop
  counters, particle counts, pixel coordinates, byte values) are \<open>nat\<close>; \<open>Date.now()\<close>
  is an \<open>int\<close> of milliseconds.

  \<open>Math.random()\<close> is an external source of numbers in \<open>[0, 1)\<close>. A function of the
  code that draws random numbers takes the sequence of future draws as an argument
  (\<open>rs 0\<close> is the next draw, \<open>rs 1\<close> the one after it) and returns, next to its result,
  the sequence that remains for the code that runs after it.
\<close>

type_synonym rng = "nat \<Rightarrow> real"

definition rdrop :: "nat \<Rightarrow> rng \<Rightarrow> rng" where
  "rdrop k rs = (\<lambda>n. rs (n + k))"

definition uniform01 :: "rng \<Rightarrow> bool" where
  "uniform01 rs = (\<forall>n. 0 \<le> rs n \<and> rs n < 1)"

text \<open>The sequence in which every draw is the same number, for concrete runs.\<close>

definition const_draws :: "real \<Rightarrow> rng" where
  "const_draws c = (\<lambda>n. c)"

text \<open>
  An operation that JavaScript aborts with an exception returns \<open>Inl\<close> of the error:
  reading a property of \<open>undefined\<close> (an array element beyond the end) is a
  \<open>TypeError\<close>.
\<close>

datatype js_error = TypeError

text \<open>\<open>THREE.Vector3\<close>: three numbers. \<open>new THREE.Vector3()\<close> is the origin.\<close>

record vec3 =
  vx :: real
  vy :: real
  vz :: real

definition Vector3 :: "real \<Rightarrow> real \<Rightarrow> real \<Rightarrow> vec3" where
  "Vector3 a b c = \<lparr>vx = a, vy = b, vz = c\<rparr>"

definition origin :: vec3 where
  "origin = Vector3 0 0 0"

definition vadd :: "vec3 \<Rightarrow> vec3 \<Rightarrow> vec3" where
  "vadd p q = Vector3 (vx p + vx q) (vy p + vy q) (vz p + vz q)"

definition multiplyScalar :: "vec3 \<Rightarrow> real \<Rightarrow> vec3" where
  "multiplyScalar p s = Vector3 (vx p * s) (vy p * s) (vz p * s)"

definition vnorm :: "vec3 \<Rightarrow> real" where
  "vnorm p = sqrt ((vx p)\<^sup>2 + (vy p)\<^sup>2 + (vz p)\<^sup>2)"

section \<open>Application state and the toggle of the control panel\<close>

text \<open>
  Modelled from the spec: the enum \<open>AppState\<close> is declared in \<open>types.ts\<close>, which is not
  among the sources. The spec calls the state machine "a two-state toggle
  (chaos/formed)", and the sources only ever name \<open>AppState.CHAOS\<close> and
  \<open>AppState.FORMED\<close>.
\<close>

datatype AppState = CHAOS | FORMED

text \<open>
  \<open>Controls\<close>, \<open>params.toggleState\<close>:
  \<^verbatim>\<open>() => setAppState(appState === AppState.CHAOS ? AppState.FORMED : AppState.CHAOS)\<close>.
  The function gives the argument of \<open>setAppState\<close>, that is, the next state.
\<close>

definition toggleState :: "AppState \<Rightarrow> AppState" where
  "toggleState appState = (if appState = CHAOS then FORMED else CHAOS)"

section \<open>Point generators of \<open>math.ts\<close>\<close>

text \<open>
  \<open>getRandomSpherePoint\<close>: three draws \<open>u\<close>, \<open>v\<close> and the one under the cube root.
  \<open>Math.cbrt\<close> is \<open>root 3\<close>, \<open>Math.acos\<close> is \<open>arccos\<close> (its argument \<open>2 v - 1\<close> lies in
  \<open>[-1, 1)\<close> for a draw \<open>v\<close>).
\<close>

definition getRandomSpherePoint :: "real \<Rightarrow> rng \<Rightarrow> vec3 \<times> rng" where
  "getRandomSpherePoint radius rs =
     (let u = rs 0;
          v = rs 1;
          theta = 2 * pi * u;
          phi = arccos (2 * v - 1);
          r = root 3 (rs 2) * radius;
          sinPhi = sin phi;
          x = r * sinPhi * cos theta;
          y = r * sinPhi * sin theta;
          z = r * cos phi
      in (Vector3 x y z, rdrop 3 rs))"

text \<open>
  \<open>getVolumetricShapePoint\<close>. The list may be missing (\<open>!points\<close>), hence the option.
  \<open>index\<close> is a loop counter at both call sites and is a natural number here. The read
  \<open>points[i]\<close> is written with its bound: beyond the end the element is \<open>undefined\<close>
  and \<open>.clone()\<close> throws. The draws are, in the order of the code, the one for \<open>z\<close>,
  the one for \<open>x\<close> and the one for \<open>y\<close>; the early return draws nothing.
\<close>

definition getVolumetricShapePoint ::
  "vec3 list option \<Rightarrow> nat \<Rightarrow> real \<Rightarrow> rng \<Rightarrow> js_error + (vec3 \<times> rng)" where
  "getVolumetricShapePoint points index thickness rs =
     (case points of
        None \<Rightarrow> Inr (origin, rs)
      | Some pts \<Rightarrow>
          if length pts = 0 then Inr (origin, rs)
          else
            let i = index mod length pts in
            if i < length pts then
              let pt = pts ! i;
                  z = (rs 0 - 0.5) * thickness;
                  x = vx pt + (rs 1 - 0.5) * 0.1;
                  y = vy pt + (rs 2 - 0.5) * 0.1
              in Inr (Vector3 x y z, rdrop 3 rs)
            else Inl TypeError)"

text \<open>
  \<open>Math.pow\<close> on a base \<open>b \<ge> 0\<close>: \<open>pow(b, 0) = 1\<close> also for \<open>b = 0\<close>, where \<open>powr\<close>
  gives \<open>0\<close>. (\<open>pow(0, e)\<close> for \<open>e < 0\<close> is \<open>Infinity\<close> and has no counterpart here.)
\<close>

definition Math_pow :: "real \<Rightarrow> real \<Rightarrow> real" where
  "Math_pow b e = (if e = 0 then 1 else b powr e)"

text \<open>
  \<open>getTreePoint\<close>. Both branches draw three numbers: the height, the angle, the
  radius. The quotients \<open>1 / densityBias\<close> and \<open>y / height\<close> are those of the code for
  \<open>densityBias \<noteq> 0\<close> and \<open>height \<noteq> 0\<close>.
\<close>

definition getTreePoint ::
  "real \<Rightarrow> real \<Rightarrow> real \<Rightarrow> real \<Rightarrow> real \<Rightarrow> real \<Rightarrow> rng \<Rightarrow> vec3 \<times> rng" where
  "getTreePoint height maxRadius spirals spiralTightness verticalOffset densityBias rs =
     (let yNorm = Math_pow (rs 0) (1 / densityBias);
          y = yNorm * height;
          rAtY = maxRadius * (1 - y / height)
      in if spirals > 0 then
           let spiralAngle = (1.0 - yNorm) * (spirals * pi * 2);
               maxSpread = pi * 2 * (1.0 - spiralTightness);
               angle = spiralAngle + (rs 1 - 0.5) * maxSpread;
               randomR = sqrt (rs 2);
               rFactor = randomR + (1.0 - randomR) * (spiralTightness * 0.5);
               r = rAtY * rFactor
           in (Vector3 (r * cos angle) (y + verticalOffset) (r * sin angle), rdrop 3 rs)
         else
           let angle = rs 1 * pi * 2;
               r = rAtY * sqrt (rs 2)
           in (Vector3 (r * cos angle) (y + verticalOffset) (r * sin angle), rdrop 3 rs))"

subsection \<open>Colours\<close>

text \<open>
  \<open>THREE.Color\<close> belongs to the rendering library. A colour is kept as the expression
  that builds it: \<open>new THREE.Color(s)\<close> from a colour string, \<open>c.clone().offsetHSL(h, s, l)\<close>
  and \<open>a.clone().lerp(b, t)\<close>.
\<close>

datatype color = Color string | OffsetHSL color real real real | Lerp color color real

definition PALETTE_emerald :: color where "PALETTE_emerald = Color ''#0bf4aa''"
definition PALETTE_gold :: color where "PALETTE_gold = Color ''#fbe774''"
definition PALETTE_red :: color where "PALETTE_red = Color ''#e51010''"
definition PALETTE_silver :: color where "PALETTE_silver = Color ''#cccccc''"
definition PALETTE_goldLight :: color where "PALETTE_goldLight = Color ''#fff4b0''"
definition PALETTE_white :: color where "PALETTE_white = Color ''#ffffff''"
definition PALETTE_brown :: color where "PALETTE_brown = Color ''#8b4513''"
definition PALETTE_darkBrown :: color where "PALETTE_darkBrown = Color ''#5d4037''"

subsection \<open>Weighted region sampling\<close>

text \<open>
  \<open>interface Region\<close>. The generator is a closure \<open>() => THREE.Vector3\<close> that draws its
  own random numbers, so here it is a function of the draws that remain.
\<close>

record region =
  weight :: real
  generator :: "rng \<Rightarrow> vec3 \<times> rng"
  color :: color

text \<open>\<open>regions.reduce((sum, r) => sum + r.weight, 0)\<close>.\<close>

definition totalWeight :: "region list \<Rightarrow> real" where
  "totalWeight regions = foldl (\<lambda>sum r. sum + weight r) 0 regions"

text \<open>
  The \<open>for (const region of regions)\<close> loop of \<open>sampleRegions\<close>, with the running value
  of \<open>random\<close>. \<open>Some region\<close> is the \<open>return\<close> inside the loop; \<open>None\<close> is leaving the
  loop at its end, after which the code returns the fallback.
\<close>

fun sampleLoop :: "region list \<Rightarrow> real \<Rightarrow> region option" where
  "sampleLoop [] random = None"
| "sampleLoop (region # rest) random =
     (if random < weight region then Some region
      else sampleLoop rest (random - weight region))"

text \<open>
  \<open>sampleRegions\<close>: one draw selects the region, then the region's generator runs on the
  draws after it. The result is the pair \<open>(pos, color)\<close> of \<open>ShapeData\<close>.
\<close>

definition sampleRegions :: "region list \<Rightarrow> rng \<Rightarrow> (vec3 \<times> color) \<times> rng" where
  "sampleRegions regions rs =
     (let random = rs 0 * totalWeight regions
      in case sampleLoop regions random of
           Some region \<Rightarrow>
             (let (pos, rs') = generator region (rdrop 1 rs) in ((pos, color region), rs'))
         | None \<Rightarrow> ((origin, PALETTE_white), rdrop 1 rs))"

text \<open>
  For the statement about \<open>sampleRegions\<close>: the sum of the weights before position \<open>k\<close>,
  and the cumulative-weight interval of the region at position \<open>k\<close>.
\<close>

definition cumWeight :: "region list \<Rightarrow> nat \<Rightarrow> real" where
  "cumWeight regions k = sum_list (map weight (take k regions))"

definition in_interval :: "region list \<Rightarrow> real \<Rightarrow> nat \<Rightarrow> bool" where
  "in_interval regions u k =
     (k < length regions \<and> cumWeight regions k \<le> u
      \<and> u < cumWeight regions k + weight (regions ! k))"

section \<open>The gesture controller (\<open>GestureController\<close>, \<open>onResults\<close>)\<close>

text \<open>
  The poses are strings in the code: the six values of \<open>rawPose\<close> and \<open>confirmedPose\<close>,
  and \<open>'NONE'\<close>, which only \<open>currentPose\<close> takes.
\<close>

datatype pose = ROTATE | PEACE_ZOOM | LIKE_SNAP | FIST | OPEN | IDLE | NONE

text \<open>
  A hand landmark of the hand-tracking library; the handler reads only \<open>x\<close> and \<open>y\<close>.
\<close>

record landmark =
  lx :: real
  ly :: real

definition Math_hypot :: "real \<Rightarrow> real \<Rightarrow> real" where
  "Math_hypot a b = sqrt (a\<^sup>2 + b\<^sup>2)"

definition EMA_ALPHA :: real where "EMA_ALPHA = 0.8"
definition CONFIDENCE_THRESHOLD :: nat where "CONFIDENCE_THRESHOLD = 2"

text \<open>
  The smoothing loop \<open>for (i = 0; i < rawLM.length; i++)\<close>: the first \<open>rawLM.length\<close>
  smoothed points move towards the raw ones, the others stay.
\<close>

fun emaUpdate :: "landmark list \<Rightarrow> landmark list \<Rightarrow> landmark list" where
  "emaUpdate (s # ss) (r # rs) =
     \<lparr>lx = lx s + (lx r - lx s) * EMA_ALPHA, ly = ly s + (ly r - ly s) * EMA_ALPHA\<rparr>
     # emaUpdate ss rs"
| "emaUpdate ss [] = ss"
| "emaUpdate [] (r # rs) = []"

text \<open>
  The first frame copies the raw landmarks. Later, a raw list longer than the smoothed
  one makes \<open>smoothedLandmarks.current[i]\<close> undefined for some \<open>i\<close>, and the assignment
  to its \<open>x\<close> throws.
\<close>

definition smooth :: "landmark list \<Rightarrow> landmark list \<Rightarrow> js_error + landmark list" where
  "smooth smoothed rawLM =
     (if length smoothed = 0 then Inr rawLM
      else if length rawLM \<le> length smoothed then Inr (emaUpdate smoothed rawLM)
      else Inl TypeError)"

text \<open>
  \<open>handSize\<close> and \<open>getExt\<close>: \<open>lm[0]\<close> is the wrist, \<open>lm[9]\<close> the middle-finger MCP.
  \<open>handSize || 1\<close> divides by \<open>1\<close> when the hand size is \<open>0\<close>.
\<close>

definition handSize :: "landmark list \<Rightarrow> real" where
  "handSize lm = (let wrist = lm ! 0; middleMCP = lm ! 9
                  in Math_hypot (lx wrist - lx middleMCP) (ly wrist - ly middleMCP))"

definition getExt :: "landmark list \<Rightarrow> nat \<Rightarrow> real" where
  "getExt lm idx =
     (let wrist = lm ! 0
      in Math_hypot (lx (lm ! idx) - lx wrist) (ly (lm ! idx) - ly wrist)
         / (if handSize lm = 0 then 1 else handSize lm))"

definition EXT_TH :: real where "EXT_TH = 1.3"
definition CURL_TH :: real where "CURL_TH = 1.0"
definition THUMB_EXT_TH :: real where "THUMB_EXT_TH = 1.1"

text \<open>
  The pose rules. The handler reads \<open>lm[0]\<close>, \<open>lm[3]\<close>, \<open>lm[4]\<close>, \<open>lm[5]\<close>, \<open>lm[8]\<close>,
  \<open>lm[9]\<close>, \<open>lm[12]\<close>, \<open>lm[16]\<close> and \<open>lm[20]\<close>; with fewer than 21 landmarks \<open>lm[20]\<close> is
  undefined and reading its \<open>x\<close> throws. The chain of \<open>if\<close>/\<open>else if\<close> is in the order of
  the code.
\<close>

definition rawPose :: "landmark list \<Rightarrow> js_error + pose" where
  "rawPose lm =
     (if length lm < 21 then Inl TypeError
      else
        let thumbTip = lm ! 4;
            tExt = getExt lm 4; iExt = getExt lm 8; mExt = getExt lm 12;
            rExt = getExt lm 16; pExt = getExt lm 20
        in Inr (
          if iExt > EXT_TH \<and> mExt < CURL_TH \<and> rExt < CURL_TH \<and> pExt < CURL_TH then ROTATE
          else if iExt > EXT_TH \<and> mExt > EXT_TH \<and> rExt < CURL_TH \<and> pExt < CURL_TH then PEACE_ZOOM
          else if tExt > THUMB_EXT_TH \<and> iExt < CURL_TH \<and> mExt < CURL_TH \<and> rExt < CURL_TH
                  \<and> pExt < CURL_TH \<and> ly thumbTip < ly (lm ! 3) then LIKE_SNAP
          else if iExt < CURL_TH \<and> mExt < CURL_TH \<and> rExt < CURL_TH \<and> pExt < CURL_TH then FIST
          else if iExt > EXT_TH \<and> mExt > EXT_TH \<and> rExt > EXT_TH \<and> pExt > EXT_TH then OPEN
          else IDLE))"

text \<open>
  The six inputs of the rules, for the statement that the pose depends on nothing else,
  and the rules of FIST and OPEN as conditions on the four non-thumb ratios.
\<close>

definition fist_rule :: "landmark list \<Rightarrow> bool" where
  "fist_rule lm = (getExt lm 8 < 1.0 \<and> getExt lm 12 < 1.0 \<and> getExt lm 16 < 1.0 \<and> getExt lm 20 < 1.0)"

definition open_rule :: "landmark list \<Rightarrow> bool" where
  "open_rule lm = (getExt lm 8 > 1.3 \<and> getExt lm 12 > 1.3 \<and> getExt lm 16 > 1.3 \<and> getExt lm 20 > 1.3)"

definition same_features :: "landmark list \<Rightarrow> landmark list \<Rightarrow> bool" where
  "same_features lm lm' =
     (getExt lm 4 = getExt lm' 4 \<and> getExt lm 8 = getExt lm' 8 \<and> getExt lm 12 = getExt lm' 12
      \<and> getExt lm 16 = getExt lm' 16 \<and> getExt lm 20 = getExt lm' 20
      \<and> (ly (lm ! 4) < ly (lm ! 3)) = (ly (lm' ! 4) < ly (lm' ! 3)))"

text \<open>
  The refs of the component that the handler reads and writes, with their initial
  values. \<open>poseCounters\<close> is a \<open>Record<string, number>\<close> in which a missing key counts
  as \<open>0\<close> (\<open>poseCounters.current[rawPose] || 0\<close>).
\<close>

datatype nav_mode = NAV_ROTATE | NAV_ZOOM

record gesture_refs =
  smoothedLandmarks :: "landmark list"
  poseCounters :: "pose \<Rightarrow> nat"
  currentPose :: pose
  poseHoldStart :: int
  prevIndexPos :: "(real \<times> real) option"
  initialHandSize :: "real option"
  initialZoom :: real
  lastSwitchTime :: int
  isSwitchPrimed :: bool

definition init_refs :: gesture_refs where
  "init_refs = \<lparr>smoothedLandmarks = [], poseCounters = (\<lambda>k. 0), currentPose = NONE,
     poseHoldStart = 0, prevIndexPos = None, initialHandSize = None, initialZoom = 1.0,
     lastSwitchTime = 0, isSwitchPrimed = False\<rparr>"

text \<open>
  What one call of \<open>onResults\<close> receives: the clock \<open>Date.now()\<close>, the library's result
  (\<open>None\<close> when \<open>results.multiHandLandmarks\<close> is missing) and
  \<open>gestureState.current.zoomDistance\<close>, which the parent component owns.
\<close>

record frame_input =
  now :: int
  multiHandLandmarks :: "landmark list list option"
  zoomDistance :: real

text \<open>
  What one call does to the outside: \<open>setGesture\<close>, \<open>setHoldProgress\<close> (\<open>None\<close> when it is
  not called), \<open>setAppState\<close> (\<open>None\<close> when it is not called), \<open>onNavigate\<close> and
  \<open>onSnap\<close>. Drawing the skeleton on the canvas is left out.
\<close>

record frame_effects =
  gesture :: pose
  holdProgress :: "real option"
  appStateSet :: "AppState option"
  navigated :: "(real \<times> real \<times> nav_mode) option"
  snapped :: bool

text \<open>
  Confirmation: every counter but the raw pose's goes down by one, not below zero; the
  raw pose's goes up by one; the raw pose is confirmed once its counter reaches
  \<open>CONFIDENCE_THRESHOLD\<close>, otherwise the confirmed pose is \<open>IDLE\<close>.
\<close>

definition confirmPose :: "(pose \<Rightarrow> nat) \<Rightarrow> pose \<Rightarrow> (pose \<Rightarrow> nat) \<times> pose" where
  "confirmPose counters raw =
     (let decayed = (\<lambda>k. if k \<noteq> raw then counters k - 1 else counters k);
          counted = decayed(raw := decayed raw + 1)
      in (counted, if counted raw \<ge> CONFIDENCE_THRESHOLD then raw else IDLE))"

text \<open>The four blocks of the interaction layer, in the order of the code.\<close>

definition rotateStep ::
  "pose \<Rightarrow> landmark \<Rightarrow> gesture_refs \<Rightarrow> gesture_refs \<times> (real \<times> real \<times> nav_mode) option" where
  "rotateStep confirmedPose indexTip refs =
     (if confirmedPose = ROTATE then
        (refs\<lparr>prevIndexPos := Some (lx indexTip, ly indexTip)\<rparr>,
         case prevIndexPos refs of
           None \<Rightarrow> None
         | Some (px, py) \<Rightarrow>
             let dx = lx indexTip - px; dy = ly indexTip - py
             in if \<bar>dx\<bar> > 0.0005 \<or> \<bar>dy\<bar> > 0.0005 then Some (dx, dy, NAV_ROTATE) else None)
      else (refs\<lparr>prevIndexPos := None\<rparr>, None))"

definition zoomStep ::
  "pose \<Rightarrow> real \<Rightarrow> real \<Rightarrow> gesture_refs \<Rightarrow> gesture_refs \<times> (real \<times> real \<times> nav_mode) option" where
  "zoomStep confirmedPose hs zoomDist refs =
     (if confirmedPose = PEACE_ZOOM then
        (case initialHandSize refs of
           None \<Rightarrow> (refs\<lparr>initialHandSize := Some hs, initialZoom := zoomDist\<rparr>, None)
         | Some ihs \<Rightarrow>
             let ratio = hs / (if ihs = 0 then 1 else ihs);
                 targetZoom = initialZoom refs * Math_pow ratio 1.4;
                 zoomDelta = (targetZoom - zoomDist) * 0.35
             in (refs, Some (0, zoomDelta, NAV_ZOOM)))
      else (refs\<lparr>initialHandSize := None\<rparr>, None))"

definition snapStep :: "pose \<Rightarrow> int \<Rightarrow> gesture_refs \<Rightarrow> gesture_refs \<times> bool" where
  "snapStep confirmedPose t refs =
     (if confirmedPose = LIKE_SNAP then
        (if \<not> isSwitchPrimed refs \<and> t - lastSwitchTime refs > 500
         then (refs\<lparr>lastSwitchTime := t, isSwitchPrimed := True\<rparr>, True)
         else (refs, False))
      else (refs\<lparr>isSwitchPrimed := False\<rparr>, False))"

definition holdStep ::
  "pose \<Rightarrow> int \<Rightarrow> gesture_refs \<Rightarrow> gesture_refs \<times> real option \<times> AppState option" where
  "holdStep confirmedPose t refs =
     (if confirmedPose = FIST \<or> confirmedPose = OPEN then
        (if currentPose refs = confirmedPose then
           let dur = t - poseHoldStart refs;
               progress = min 100 ((real_of_int dur / 300) * 100)
           in if dur > 300
              then (refs\<lparr>poseHoldStart := t + 800\<rparr>, Some progress,
                    Some (if confirmedPose = FIST then FORMED else CHAOS))
              else (refs, Some progress, None)
         else (refs\<lparr>currentPose := confirmedPose, poseHoldStart := t\<rparr>, Some 0, None))
      else
        (if confirmedPose \<noteq> IDLE then refs\<lparr>currentPose := NONE\<rparr> else refs, Some 0, None))"

text \<open>
  The handler. Without a hand it sets the gesture to \<open>IDLE\<close>, clears two refs and
  returns; \<open>currentPose\<close> and \<open>poseHoldStart\<close> keep their values.
\<close>

definition onResults ::
  "gesture_refs \<Rightarrow> frame_input \<Rightarrow> js_error + (gesture_refs \<times> frame_effects)" where
  "onResults refs results =
     (case multiHandLandmarks results of
        None \<Rightarrow>
          Inr (refs\<lparr>prevIndexPos := None, initialHandSize := None\<rparr>,
               \<lparr>gesture = IDLE, holdProgress = None, appStateSet = None, navigated = None,
                snapped = False\<rparr>)
      | Some [] \<Rightarrow>
          Inr (refs\<lparr>prevIndexPos := None, initialHandSize := None\<rparr>,
               \<lparr>gesture = IDLE, holdProgress = None, appStateSet = None, navigated = None,
                snapped = False\<rparr>)
      | Some (rawLM # others) \<Rightarrow>
          (case smooth (smoothedLandmarks refs) rawLM of
             Inl e \<Rightarrow> Inl e
           | Inr lm \<Rightarrow>
               (case rawPose lm of
                  Inl e \<Rightarrow> Inl e
                | Inr raw \<Rightarrow>
                    let refs1 = refs\<lparr>smoothedLandmarks := lm\<rparr>;
                        (counters, confirmedPose) = confirmPose (poseCounters refs1) raw;
                        refs2 = refs1\<lparr>poseCounters := counters\<rparr>;
                        t = now results;
                        (refs3, nav1) = rotateStep confirmedPose (lm ! 8) refs2;
                        (refs4, nav2) = zoomStep confirmedPose (handSize lm) (zoomDistance results) refs3;
                        (refs5, snap) = snapStep confirmedPose t refs4;
                        (refs6, progress, appSet) = holdStep confirmedPose t refs5
                    in Inr (refs6,
                            \<lparr>gesture = confirmedPose, holdProgress = progress,
                             appStateSet = appSet,
                             navigated = (case nav1 of Some n \<Rightarrow> Some n | None \<Rightarrow> nav2),
                             snapped = snap\<rparr>))))"

text \<open>
  A session: the handler called on one frame after the other. An exception ends it.
\<close>

fun run :: "gesture_refs \<Rightarrow> frame_input list \<Rightarrow> js_error + (gesture_refs \<times> frame_effects list)" where
  "run refs [] = Inr (refs, [])"
| "run refs (f # fs) =
     (case onResults refs f of
        Inl e \<Rightarrow> Inl e
      | Inr (refs', eff) \<Rightarrow>
          (case run refs' fs of
             Inl e \<Rightarrow> Inl e
           | Inr (refs'', effs) \<Rightarrow> Inr (refs'', eff # effs)))"


definition run_effects :: "frame_input list \<Rightarrow> frame_effects list" where
  "run_effects fs = (case run init_refs fs of Inl e \<Rightarrow> [] | Inr (r, es) \<Rightarrow> es)"

definition run_ok :: "frame_input list \<Rightarrow> bool" where
  "run_ok fs = (case run init_refs fs of Inl e \<Rightarrow> False | Inr res \<Rightarrow> True)"

text \<open>A frame as the library delivers it: a detected hand has 21 landmarks.\<close>

definition hand_frame_ok :: "frame_input \<Rightarrow> bool" where
  "hand_frame_ok f =
     (case multiHandLandmarks f of
        None \<Rightarrow> True
      | Some [] \<Rightarrow> True
      | Some (rawLM # others) \<Rightarrow> length rawLM = 21)"

text \<open>
  For the statements about holds. \<open>continuously P fs es n\<close>: the confirmed pose has been
  \<open>P\<close> in every frame from some frame \<open>m\<close> to frame \<open>n\<close>, and frame \<open>m\<close> is more than
  300 ms before frame \<open>n\<close>. \<open>held_since P es m n\<close>: frame \<open>m\<close>, before frame \<open>n\<close>, has
  confirmed pose \<open>P\<close>, and every frame between them has confirmed pose \<open>P\<close> or \<open>IDLE\<close>.
  \<open>state_change_justified fs es n\<close>: what frame \<open>n\<close> may do to the app state.
\<close>

definition held_since ::
  "pose \<Rightarrow> frame_effects list \<Rightarrow> nat \<Rightarrow> nat \<Rightarrow> bool" where
  "held_since P es m n =
     (m < n \<and> gesture (es ! m) = P
      \<and> (\<forall>j \<in> {m<..<n}. gesture (es ! j) = P \<or> gesture (es ! j) = IDLE))"

definition continuously ::
  "pose \<Rightarrow> frame_input list \<Rightarrow> frame_effects list \<Rightarrow> nat \<Rightarrow> bool" where
  "continuously P fs es n =
     (\<exists>m \<in> {..n}. now (fs ! n) - now (fs ! m) > 300 \<and> (\<forall>j \<in> {m..n}. gesture (es ! j) = P))"

definition state_change_justified :: "frame_input list \<Rightarrow> frame_effects list \<Rightarrow> nat \<Rightarrow> bool" where
  "state_change_justified fs es n =
     ((appStateSet (es ! n) = Some FORMED \<longrightarrow>
         gesture (es ! n) = FIST
         \<and> (\<exists>m. held_since FIST es m n \<and> now (fs ! n) - now (fs ! m) > 300))
      \<and> (appStateSet (es ! n) = Some CHAOS \<longrightarrow>
         gesture (es ! n) = OPEN
         \<and> (\<exists>m. held_since OPEN es m n \<and> now (fs ! n) - now (fs ! m) > 300))
      \<and> (gesture (es ! n) \<in> {ROTATE, PEACE_ZOOM, LIKE_SNAP, IDLE} \<longrightarrow> appStateSet (es ! n) = None))"

text \<open>
  Two concrete hands and a session of four frames: a fist, the fist again, a hand with
  the index finger half stretched (ratio between the two thresholds), the fist again.
\<close>

definition fistHand :: "landmark list" where
  "fistHand =
     [\<lparr>lx = 0, ly = 0\<rparr>, \<lparr>lx = 0, ly = 0\<rparr>, \<lparr>lx = 0, ly = 0\<rparr>, \<lparr>lx = 0, ly = 0\<rparr>,
      \<lparr>lx = 0, ly = 0\<rparr>, \<lparr>lx = 0, ly = 0\<rparr>, \<lparr>lx = 0, ly = 0\<rparr>, \<lparr>lx = 0, ly = 0\<rparr>,
      \<lparr>lx = 0, ly = 0\<rparr>, \<lparr>lx = 1, ly = 0\<rparr>, \<lparr>lx = 0, ly = 0\<rparr>, \<lparr>lx = 0, ly = 0\<rparr>,
      \<lparr>lx = 0, ly = 0\<rparr>, \<lparr>lx = 0, ly = 0\<rparr>, \<lparr>lx = 0, ly = 0\<rparr>, \<lparr>lx = 0, ly = 0\<rparr>,
      \<lparr>lx = 0, ly = 0\<rparr>, \<lparr>lx = 0, ly = 0\<rparr>, \<lparr>lx = 0, ly = 0\<rparr>, \<lparr>lx = 0, ly = 0\<rparr>,
      \<lparr>lx = 0, ly = 0\<rparr>]"

definition idleHand :: "landmark list" where
  "idleHand =
     [\<lparr>lx = 0, ly = 0\<rparr>, \<lparr>lx = 0, ly = 0\<rparr>, \<lparr>lx = 0, ly = 0\<rparr>, \<lparr>lx = 0, ly = 0\<rparr>,
      \<lparr>lx = 0, ly = 0\<rparr>, \<lparr>lx = 0, ly = 0\<rparr>, \<lparr>lx = 0, ly = 0\<rparr>, \<lparr>lx = 0, ly = 0\<rparr>,
      \<lparr>lx = 1.25, ly = 0\<rparr>, \<lparr>lx = 1, ly = 0\<rparr>, \<lparr>lx = 0, ly = 0\<rparr>, \<lparr>lx = 0, ly = 0\<rparr>,
      \<lparr>lx = 0, ly = 0\<rparr>, \<lparr>lx = 0, ly = 0\<rparr>, \<lparr>lx = 0, ly = 0\<rparr>, \<lparr>lx = 0, ly = 0\<rparr>,
      \<lparr>lx = 0, ly = 0\<rparr>, \<lparr>lx = 0, ly = 0\<rparr>, \<lparr>lx = 0, ly = 0\<rparr>, \<lparr>lx = 0, ly = 0\<rparr>,
      \<lparr>lx = 0, ly = 0\<rparr>]"

definition flickerTrace :: "frame_input list" where
  "flickerTrace =
     [\<lparr>now = 0, multiHandLandmarks = Some [fistHand], zoomDistance = 1\<rparr>,
      \<lparr>now = 10, multiHandLandmarks = Some [fistHand], zoomDistance = 1\<rparr>,
      \<lparr>now = 20, multiHandLandmarks = Some [idleHand], zoomDistance = 1\<rparr>,
      \<lparr>now = 400, multiHandLandmarks = Some [fistHand], zoomDistance = 1\<rparr>]"

text \<open>
  For the proofs: what one frame does to the hold in terms of the refs before and after
  it, the invariant of a session, and the length of the smoothed landmarks.
\<close>

definition hold_frame ::
  "pose \<Rightarrow> int \<Rightarrow> pose \<Rightarrow> int \<Rightarrow> pose \<Rightarrow> int \<Rightarrow> AppState option \<Rightarrow> bool" where
  "hold_frame g t cp hs cp' hs' a =
     ((a = Some FORMED \<longrightarrow> g = FIST \<and> cp = FIST \<and> t - hs > 300)
      \<and> (a = Some CHAOS \<longrightarrow> g = OPEN \<and> cp = OPEN \<and> t - hs > 300)
      \<and> (g \<noteq> FIST \<and> g \<noteq> OPEN \<longrightarrow> a = None)
      \<and> (\<forall>P. (P = FIST \<or> P = OPEN) \<and> cp' = P \<longrightarrow>
            (g = P \<and> t \<le> hs') \<or> ((g = P \<or> g = IDLE) \<and> cp = P \<and> hs' = hs)))"

definition hold_inv :: "frame_input list \<Rightarrow> gesture_refs \<Rightarrow> frame_effects list \<Rightarrow> bool" where
  "hold_inv fs r es =
     (\<forall>P. (P = FIST \<or> P = OPEN) \<and> currentPose r = P \<longrightarrow>
        (\<exists>m. held_since P es m (length fs) \<and> now (fs ! m) \<le> poseHoldStart r))"

definition lm_ok :: "gesture_refs \<Rightarrow> bool" where
  "lm_ok refs = (length (smoothedLandmarks refs) = 0 \<or> length (smoothedLandmarks refs) = 21)"


section \<open>The foliage particle system (\<open>Foliage\<close>)\<close>

text \<open>
  Modelled from the spec: the enum \<open>FormationType\<close> is declared in \<open>types.ts\<close>, which is
  not among the sources. The spec speaks of "various named formations (tree, gift box,
  stocking, Santa figure, logo/text shapes)"; the members are the thirteen names the
  sources use, which are also the entries of the formation list of the control panel.
\<close>

datatype FormationType =
  TREE | PINK_TREE | RED_TREE | GIFT | HAT | STOCKING | ELK | SANTA
  | TEXT | ANKERMAKER | ANKER | SOUNDCORE | EUFY

text \<open>
  The typed arrays of the component. \<open>count\<close> is \<open>config.particles.count\<close>; the arrays
  of \<open>foliage_data\<close> are only read by the frame callback, those of the points object
  (\<open>pointsRef.current\<close>: the \<open>position\<close> and \<open>color\<close> attributes of its geometry, and whether
  its material has \<open>uniforms\<close>) are updated in place. All of them are allocated with
  \<open>count * 3\<close> entries (\<open>speeds\<close> with \<open>count\<close>), so the frame callback stays in range;
  \<open>arrays_allocated\<close> says so.
\<close>

record foliage_data =
  count :: nat
  targetPositions :: "real list"
  targetColors :: "real list"
  chaosPositions :: "real list"
  fireworkPositions :: "real list"
  speeds :: "real list"

record points_object =
  positionArray :: "real list"
  colorArray :: "real list"
  materialUniforms :: bool

text \<open>
  What a frame reads from outside: the clock's \<open>delta\<close>, the props \<open>state\<close> and
  \<open>config.formation\<close>, and \<open>config.particles.speed\<close>.
\<close>

record frame_args =
  delta :: real
  state :: AppState
  formation :: FormationType
  particleSpeed :: real

definition isFormed :: "frame_args \<Rightarrow> bool" where
  "isFormed a = (state a = FORMED)"

definition isFirework :: "frame_args \<Rightarrow> bool" where
  "isFirework a = (\<not> isFormed a \<and> formation a = GIFT)"

definition lerpSpeedBase :: "frame_args \<Rightarrow> real" where
  "lerpSpeedBase a = delta a * 60 * particleSpeed a"

definition lerpSpeed :: "foliage_data \<Rightarrow> frame_args \<Rightarrow> nat \<Rightarrow> real" where
  "lerpSpeed d a i = speeds d ! i * lerpSpeedBase a * (if isFirework a then 3.0 else 1.0)"

definition targetCoord :: "foliage_data \<Rightarrow> frame_args \<Rightarrow> nat \<Rightarrow> real" where
  "targetCoord d a q =
     (if isFormed a then targetPositions d ! q
      else if isFirework a then fireworkPositions d ! q
      else chaosPositions d ! q)"

text \<open>
  The body of the \<open>for\<close> loop of \<open>useFrame\<close> for particle \<open>i\<close>: three position entries
  move towards the target, and when the state is FORMED three colour entries move
  towards the target colour at half the speed. A typed-array write beyond the end does
  nothing, as \<open>list_update\<close>.
\<close>

definition particleStep ::
  "foliage_data \<Rightarrow> frame_args \<Rightarrow> nat \<Rightarrow> real list \<times> real list \<Rightarrow> real list \<times> real list" where
  "particleStep d a i arrays =
     (let pos = fst arrays; col = snd arrays;
          idx = i * 3;
          tx = targetCoord d a idx;
          ty = targetCoord d a (idx + 1);
          tz = targetCoord d a (idx + 2);
          ls = lerpSpeed d a i;
          pos1 = pos[idx := pos ! idx + (tx - pos ! idx) * ls];
          pos2 = pos1[idx + 1 := pos1 ! (idx + 1) + (ty - pos1 ! (idx + 1)) * ls];
          pos3 = pos2[idx + 2 := pos2 ! (idx + 2) + (tz - pos2 ! (idx + 2)) * ls]
      in if isFormed a then
           let tc = targetColors d;
               col1 = col[idx := col ! idx + (tc ! idx - col ! idx) * ls * 0.5];
               col2 = col1[idx + 1 := col1 ! (idx + 1) + (tc ! (idx + 1) - col1 ! (idx + 1)) * ls * 0.5];
               col3 = col2[idx + 2 := col2 ! (idx + 2) + (tc ! (idx + 2) - col2 ! (idx + 2)) * ls * 0.5]
           in (pos3, col3)
         else (pos3, col))"

text \<open>The loop \<open>for (let i = 0; i < count; i++)\<close>, from \<open>i\<close> on.\<close>

function frameLoop ::
  "foliage_data \<Rightarrow> frame_args \<Rightarrow> nat \<Rightarrow> real list \<times> real list \<Rightarrow> real list \<times> real list" where
  "frameLoop d a i arrays =
     (if i < count d then frameLoop d a (Suc i) (particleStep d a i arrays) else arrays)"
  by pat_completeness auto
termination
  by (relation "measure (\<lambda>(d, a, i, arrays). count d - i)") auto

declare frameLoop.simps [simp del]

text \<open>
  The frame callback, as far as it touches positions and colours: it returns at once
  when the points object is not mounted or its material has no uniforms. The uniforms
  it sets for the shaders are left out.
\<close>

definition useFrame ::
  "foliage_data \<Rightarrow> frame_args \<Rightarrow> points_object option \<Rightarrow> points_object option" where
  "useFrame d a pointsRef =
     (case pointsRef of
        None \<Rightarrow> None
      | Some pts \<Rightarrow>
          if \<not> materialUniforms pts then Some pts
          else
            let arrays = frameLoop d a 0 (positionArray pts, colorArray pts)
            in Some (pts\<lparr>positionArray := fst arrays, colorArray := snd arrays\<rparr>))"

definition arrays_allocated :: "foliage_data \<Rightarrow> points_object \<Rightarrow> bool" where
  "arrays_allocated d pts =
     (length (positionArray pts) = count d * 3 \<and> length (colorArray pts) = count d * 3
      \<and> length (targetPositions d) = count d * 3 \<and> length (targetColors d) = count d * 3
      \<and> length (chaosPositions d) = count d * 3 \<and> length (fireworkPositions d) = count d * 3
      \<and> length (speeds d) = count d)"

text \<open>A system of two particles, for a concrete frame.\<close>

definition foliage_example :: foliage_data where
  "foliage_example = \<lparr>count = 2,
     targetPositions = [1, 2, 3, 4, 5, 6], targetColors = [1, 1, 1, 0, 0, 0],
     chaosPositions = [9, 9, 9, 8, 8, 8], fireworkPositions = [20, 20, 20, 30, 30, 30],
     speeds = [1 / 50, 1 / 40]\<rparr>"

definition points_example :: points_object where
  "points_example = \<lparr>positionArray = [9, 9, 9, 8, 8, 8], colorArray = [0, 0, 0, 1, 1, 1],
     materialUniforms = True\<rparr>"

definition frame_example :: frame_args where
  "frame_example = \<lparr>delta = 1 / 60, state = FORMED, formation = TREE, particleSpeed = 1\<rparr>"

text \<open>For the proofs: the value an entry has after its particle's step.\<close>

definition lerped :: "foliage_data \<Rightarrow> frame_args \<Rightarrow> real list \<Rightarrow> nat \<Rightarrow> real" where
  "lerped d a pos q = pos ! q + (targetCoord d a q - pos ! q) * lerpSpeed d a (q div 3)"


section \<open>Text rasterization (\<open>getCanvasTextPoints\<close>)\<close>

text \<open>\<open>text.split('\n')\<close>: the empty string gives one empty line.\<close>

fun splitOn :: "char \<Rightarrow> string \<Rightarrow> string list" where
  "splitOn c [] = [[]]"
| "splitOn c (x # xs) =
     (if x = c then [] # splitOn c xs
      else (case splitOn c xs of l # ls \<Rightarrow> (x # l) # ls | [] \<Rightarrow> [[x]]))"

text \<open>
  The 2D canvas context is the browser's. Of it the function uses \<open>measureText\<close> (the
  width of a line in a font) and, after it has sized the canvas and drawn the lines with
  \<open>fillText\<close>, \<open>getImageData(0, 0, canvas.width, canvas.height).data\<close>: the RGBA bytes of
  the raster, which depend on the font, the lines drawn and the size of the canvas. The
  font handed to the canvas is the argument \<open>font\<close> with \<open>{size}\<close> replaced by \<open>100px\<close>.
\<close>

record canvas2d =
  measureText :: "string \<Rightarrow> string \<Rightarrow> real"
  getImageData :: "string \<Rightarrow> string list \<Rightarrow> nat \<Rightarrow> nat \<Rightarrow> nat list"

text \<open>
  \<open>TEXT_POINT_CACHE\<close>, a module-level object that starts empty, with the key
  \<open>`${text}-${font}`\<close>.
\<close>

type_synonym point_cache = "string \<rightharpoonup> vec3 list"

definition cacheKey :: "string \<Rightarrow> string \<Rightarrow> string" where
  "cacheKey text font = text @ ''-'' @ font"

text \<open>
  \<open>step = Math.max(1, Math.floor(4 / density))\<close>. For \<open>density = 0\<close> the code's quotient
  is \<open>Infinity\<close>, which the reals do not have; the statements exclude it.
\<close>

definition canvasStep :: "real \<Rightarrow> nat" where
  "canvasStep density = nat (max 1 \<lfloor>4 / density\<rfloor>)"

text \<open>
  \<open>data[index + 3]\<close> with \<open>index = (y * canvas.width + x) * 4\<close>. Beyond the end of the
  array the read gives \<open>undefined\<close>, and \<open>undefined > 128\<close> is false.
\<close>

definition pixelAlpha :: "nat list \<Rightarrow> nat \<Rightarrow> nat \<Rightarrow> nat \<Rightarrow> nat option" where
  "pixelAlpha data w x y =
     (let index = (y * w + x) * 4
      in if index + 3 < length data then Some (data ! (index + 3)) else None)"

definition pixelPoint :: "real \<Rightarrow> real \<Rightarrow> nat \<Rightarrow> nat \<Rightarrow> vec3" where
  "pixelPoint centerX centerY x y =
     (let wx = (real x - centerX) * 0.04;
          wy = - (real y - centerY) * 0.04
      in Vector3 wx wy 0)"

text \<open>
  The two nested \<open>for\<close> loops, the inner one from \<open>x\<close> on and the outer one from \<open>y\<close>
  on. The result lists the points in the order in which the code pushes them.
\<close>

function scanRow :: "nat list \<Rightarrow> nat \<Rightarrow> real \<Rightarrow> real \<Rightarrow> real \<Rightarrow> nat \<Rightarrow> nat \<Rightarrow> vec3 list" where
  "scanRow data w centerX centerY density y x =
     (if x < w then
        (case pixelAlpha data w x y of
           Some a \<Rightarrow> if a > 128 then [pixelPoint centerX centerY x y] else []
         | None \<Rightarrow> [])
        @ scanRow data w centerX centerY density y (x + canvasStep density)
      else [])"
  by pat_completeness auto
termination
  by (relation "measure (\<lambda>(data, w, cx, cy, density, y, x). w - x)")
     (auto simp add: canvasStep_def)

function scanRows :: "nat list \<Rightarrow> nat \<Rightarrow> nat \<Rightarrow> real \<Rightarrow> real \<Rightarrow> real \<Rightarrow> nat \<Rightarrow> vec3 list" where
  "scanRows data w h centerX centerY density y =
     (if y < h then
        scanRow data w centerX centerY density y 0
        @ scanRows data w h centerX centerY density (y + canvasStep density)
      else [])"
  by pat_completeness auto
termination
  by (relation "measure (\<lambda>(data, w, h, cx, cy, density, y). h - y)")
     (auto simp add: canvasStep_def)

declare scanRow.simps [simp del] scanRows.simps [simp del]

text \<open>
  The size of the canvas. \<open>canvas.width = maxWidth + 40\<close> stores an integer (the width
  attribute of a canvas element is an integer; the fraction is dropped), and
  \<open>canvas.height = lines.length * 120 + 40\<close>, with \<open>lineHeight = 100 * 1.2\<close>.
\<close>

definition maxLineWidth :: "(string \<Rightarrow> real) \<Rightarrow> string list \<Rightarrow> real" where
  "maxLineWidth widthOf lines =
     foldl (\<lambda>maxWidth line. let w = widthOf line in if w > maxWidth then w else maxWidth) 0 lines"

definition canvasWidth :: "canvas2d \<Rightarrow> string \<Rightarrow> string \<Rightarrow> nat" where
  "canvasWidth ctx text font =
     nat \<lfloor>maxLineWidth (measureText ctx font) (splitOn (CHR 0x0A) text) + 40\<rfloor>"

definition canvasHeight :: "string \<Rightarrow> nat" where
  "canvasHeight text = length (splitOn (CHR 0x0A) text) * 120 + 40"

text \<open>The part of the function after the cache and context checks.\<close>

definition rasterPoints :: "canvas2d \<Rightarrow> string \<Rightarrow> string \<Rightarrow> real \<Rightarrow> vec3 list" where
  "rasterPoints ctx text font density =
     (let lines = splitOn (CHR 0x0A) text;
          w = canvasWidth ctx text font;
          h = canvasHeight text;
          centerX = real w / 2;
          centerY = real h / 2;
          data = getImageData ctx font lines w h
      in scanRows data w h centerX centerY density 0)"

text \<open>
  \<open>getCanvasTextPoints\<close>: a cached list is returned as it is (an array is truthy also when
  empty); without a 2D context the result is empty and nothing is cached.
\<close>

definition getCanvasTextPoints ::
  "canvas2d option \<Rightarrow> point_cache \<Rightarrow> string \<Rightarrow> string \<Rightarrow> real \<Rightarrow> vec3 list \<times> point_cache" where
  "getCanvasTextPoints context cache text font density =
     (case cache (cacheKey text font) of
        Some cached \<Rightarrow> (cached, cache)
      | None \<Rightarrow>
          (case context of
             None \<Rightarrow> ([], cache)
           | Some ctx \<Rightarrow>
               let points = rasterPoints ctx text font density
               in (points, cache(cacheKey text font \<mapsto> points))))"










text \<open>
  A canvas for concrete calls: every line is 10 wide per character and every pixel is
  opaque. Two calls on it whose texts and fonts differ and whose cache keys are both
  \<open>A-B-C\<close>.
\<close>

definition canvas_example :: canvas2d where
  "canvas_example = \<lparr>measureText = (\<lambda>font line. real (length line) * 10),
     getImageData = (\<lambda>font lines w h. replicate (w * h * 4) 255)\<rparr>"


section \<open>Shape generators and formation targets\<close>

subsection \<open>Primitive volumes of \<open>math.ts\<close>\<close>

text \<open>
  Each generator draws its random numbers in the order in which the code calls
  \<open>Math.random()\<close>. Vector operations that mutate their receiver (\<open>add\<close>,
  \<open>multiplyScalar\<close>) act on fresh vectors or on clones, so they are functions here.
\<close>

definition getCylinderPoint :: "real \<Rightarrow> real \<Rightarrow> real \<Rightarrow> rng \<Rightarrow> vec3 \<times> rng" where
  "getCylinderPoint h r yBase rs =
     (let theta = rs 0 * pi * 2;
          rad = sqrt (rs 1) * r;
          y = rs 2 * h
      in (Vector3 (rad * cos theta) (y + yBase) (rad * sin theta), rdrop 3 rs))"

definition getBoxPoint :: "real \<Rightarrow> real \<Rightarrow> real \<Rightarrow> vec3 \<Rightarrow> rng \<Rightarrow> vec3 \<times> rng" where
  "getBoxPoint w h d center rs =
     (Vector3 (vx center + (rs 0 - 0.5) * w)
              (vy center + (rs 1 - 0.5) * h)
              (vz center + (rs 2 - 0.5) * d),
      rdrop 3 rs)"

definition getBezierTubePoint ::
  "vec3 \<Rightarrow> vec3 \<Rightarrow> vec3 \<Rightarrow> vec3 \<Rightarrow> real \<Rightarrow> real \<Rightarrow> rng \<Rightarrow> vec3 \<times> rng" where
  "getBezierTubePoint p0 p1 p2 p3 radiusStart radiusEnd rs =
     (let t = rs 0;
          oneMinusT = 1 - t;
          a = multiplyScalar p0 (oneMinusT * oneMinusT * oneMinusT);
          b = multiplyScalar p1 (3 * oneMinusT * oneMinusT * t);
          c = multiplyScalar p2 (3 * oneMinusT * t * t);
          d = multiplyScalar p3 (t * t * t);
          center = vadd (vadd (vadd a b) c) d;
          r = radiusStart * (1 - t) + radiusEnd * t;
          (s, rs') = getRandomSpherePoint r (rdrop 1 rs)
      in (vadd center s, rs'))"

text \<open>\<open>start.clone().lerp(end, t)\<close> of three.js.\<close>

definition vlerp :: "vec3 \<Rightarrow> vec3 \<Rightarrow> real \<Rightarrow> vec3" where
  "vlerp p q t = Vector3 (vx p + (vx q - vx p) * t) (vy p + (vy q - vy p) * t)
                         (vz p + (vz q - vz p) * t)"

definition getBranchPoint :: "vec3 \<Rightarrow> vec3 \<Rightarrow> real \<Rightarrow> rng \<Rightarrow> vec3 \<times> rng" where
  "getBranchPoint start end' thickness rs =
     (let t = rs 0;
          center = vlerp start end' t;
          r = thickness * (1.0 - t * 0.5);
          (s, rs') = getRandomSpherePoint r (rdrop 1 rs)
      in (vadd center s, rs'))"

text \<open>\<open>getRandomSpherePoint(r).add(c)\<close>, the generator of many regions.\<close>

definition sphereAt :: "real \<Rightarrow> vec3 \<Rightarrow> rng \<Rightarrow> vec3 \<times> rng" where
  "sphereAt r c rs = (let (s, rs') = getRandomSpherePoint r rs in (vadd s c, rs'))"

subsection \<open>The region lists of the shapes\<close>

definition getHatPoint :: "rng \<Rightarrow> (vec3 \<times> color) \<times> rng" where
  "getHatPoint =
     (let p0 = Vector3 0 0 0;
          p1 = Vector3 0 2.5 0;
          p2 = Vector3 0.5 4.0 (- 0.5);
          p3 = Vector3 1.5 5.0 (- 1.5)
      in sampleRegions
        [\<lparr>weight = 3.5,
          generator = (\<lambda>rs.
            let angle = rs 0 * pi * 2;
                r = 2.2 + (rs 1 - 0.5) * 0.6;
                y = (rs 2 - 0.5) * 0.7
            in (Vector3 (cos angle * r) y (sin angle * r), rdrop 3 rs)),
          color = PALETTE_white\<rparr>,
         \<lparr>weight = 8, generator = getBezierTubePoint p0 p1 p2 p3 2.0 0.2, color = PALETTE_red\<rparr>,
         \<lparr>weight = 1.5, generator = sphereAt 0.8 p3, color = PALETTE_white\<rparr>])"

definition getStockingPoint :: "rng \<Rightarrow> (vec3 \<times> color) \<times> rng" where
  "getStockingPoint =
     sampleRegions
       [\<lparr>weight = 4, generator = getCylinderPoint 1.2 2.1 3.8, color = PALETTE_white\<rparr>,
        \<lparr>weight = 7, generator = getCylinderPoint 4.0 1.7 0, color = PALETTE_red\<rparr>,
        \<lparr>weight = 3, generator = sphereAt 1.7 (Vector3 0 0 0), color = PALETTE_red\<rparr>,
        \<lparr>weight = 6,
         generator = getBezierTubePoint (Vector3 0 0 0) (Vector3 0.5 (- 0.2) 0)
                       (Vector3 2.5 (- 0.2) 0) (Vector3 3.2 0.2 0) 1.7 1.5,
         color = PALETTE_red\<rparr>,
        \<lparr>weight = 0.5,
         generator = (\<lambda>rs.
           let angle = rs 0 * pi * 2;
               r = 0.3 + rs 1 * 0.1
           in (Vector3 (- 1.6) (4.8 + sin angle * r) (cos angle * r), rdrop 2 rs)),
         color = PALETTE_gold\<rparr>]"

text \<open>
  \<open>postProcessStockingColor\<close>: \<open>band = Math.floor(t * 1.1)\<close> and
  \<open>pattern = Math.abs(band) % 4\<close> are integers. \<open>postProcessGiftColor\<close> returns the base
  colour.
\<close>

definition postProcessStockingColor :: "vec3 \<Rightarrow> color \<Rightarrow> color" where
  "postProcessStockingColor pt baseColor =
     (let t = (if vy pt < 0.8 then vy pt - vx pt * 0.6 else vy pt);
          band = \<lfloor>t * 1.1\<rfloor>;
          pattern = \<bar>band\<bar> mod 4
      in if pattern = 0 then PALETTE_red
         else if pattern = 1 then PALETTE_white
         else if pattern = 2 then PALETTE_emerald
         else PALETTE_gold)"

definition postProcessGiftColor :: "vec3 \<Rightarrow> color \<Rightarrow> color" where
  "postProcessGiftColor pt baseColor = baseColor"

definition getSantaPoint :: "rng \<Rightarrow> (vec3 \<times> color) \<times> rng" where
  "getSantaPoint =
     (let brightRed = Color ''#FF0000'';
          pureWhite = Color ''#FFFFFF'';
          skin = Color ''#FFCBA4'';
          black = Color ''#000000'';
          gold = Color ''#FFD700'';
          noseColor = Color ''#FF7F7F''
      in sampleRegions
        [\<lparr>weight = 6, generator = sphereAt 2.8 (Vector3 0 4.5 0.5), color = skin\<rparr>,
         \<lparr>weight = 0.5, generator = sphereAt 0.18 (Vector3 0.65 5.0 2.4), color = black\<rparr>,
         \<lparr>weight = 0.5, generator = sphereAt 0.18 (Vector3 (- 0.65) 5.0 2.4), color = black\<rparr>,
         \<lparr>weight = 0.3, generator = sphereAt 0.35 (Vector3 0 4.5 2.9), color = noseColor\<rparr>,
         \<lparr>weight = 8, generator = sphereAt 2.2 (Vector3 0 2.5 1.8), color = pureWhite\<rparr>,
         \<lparr>weight = 8,
          generator = getBezierTubePoint (Vector3 (- 3.2) 4.0 1.0) (Vector3 (- 1.2) 1.0 2.5)
                        (Vector3 1.2 1.0 2.5) (Vector3 3.2 4.0 1.0) 1.8 1.8,
          color = pureWhite\<rparr>,
         \<lparr>weight = 1.5,
          generator = getBezierTubePoint (Vector3 (- 1.4) 4.0 3.1) (Vector3 (- 0.4) 4.1 3.4)
                        (Vector3 0.4 4.1 3.4) (Vector3 1.4 4.0 3.1) 0.5 0.5,
          color = pureWhite\<rparr>,
         \<lparr>weight = 5, generator = getCylinderPoint 1.2 4.0 6.0, color = pureWhite\<rparr>,
         \<lparr>weight = 8.05,
          generator = getBezierTubePoint (Vector3 0 6.5 0) (Vector3 0 9.5 0)
                        (Vector3 2.5 11.0 (- 1.0)) (Vector3 4.5 8.5 (- 2.5)) 3.2 0.6,
          color = brightRed\<rparr>,
         \<lparr>weight = 1.5, generator = sphereAt 0.95 (Vector3 4.5 8.5 (- 2.5)), color = pureWhite\<rparr>,
         \<lparr>weight = 11.5,
          generator = (\<lambda>rs.
            let (p, rs') = getRandomSpherePoint 1.0 rs
            in (Vector3 (vx p * 4.2) (vy p * 3.5 + 0.5) (vz p * 4.0), rs')),
          color = brightRed\<rparr>,
         \<lparr>weight = 4,
          generator = (\<lambda>rs.
            let angle = rs 0 * pi * 2;
                r = 4.3;
                y = (rs 1 - 0.5) * 1.5
            in (Vector3 (cos angle * r) y (sin angle * r), rdrop 2 rs)),
          color = black\<rparr>,
         \<lparr>weight = 1, generator = getBoxPoint 1.8 1.8 0.5 (Vector3 0 0 4.3), color = gold\<rparr>,
         \<lparr>weight = 3, generator = getCylinderPoint 0.8 3.8 (- 2.5), color = pureWhite\<rparr>,
         \<lparr>weight = 0.5, generator = sphereAt 0.3 (Vector3 0 1.5 3.8), color = gold\<rparr>,
         \<lparr>weight = 0.5, generator = sphereAt 0.3 (Vector3 0 3.0 3.2), color = gold\<rparr>])"

definition getGiftPoint :: "rng \<Rightarrow> (vec3 \<times> color) \<times> rng" where
  "getGiftPoint =
     (let center = Vector3 0 2.5 0;
          size = 6.0;
          half = size / 2;
          edgeThick = 0.15;
          cBody = PALETTE_emerald;
          cGold = PALETTE_gold;
          off = (\<lambda>a b c. vadd center (Vector3 a b c));
          top = (\<lambda>a b c. vadd (Vector3 a b c) center)
      in sampleRegions
        [\<lparr>weight = 30, generator = getBoxPoint (size - 0.2) (size - 0.2) (size - 0.2) center,
          color = cBody\<rparr>,
         \<lparr>weight = 2, generator = getBoxPoint edgeThick size edgeThick (off half 0 half),
          color = cGold\<rparr>,
         \<lparr>weight = 2, generator = getBoxPoint edgeThick size edgeThick (off (- half) 0 half),
          color = cGold\<rparr>,
         \<lparr>weight = 2, generator = getBoxPoint edgeThick size edgeThick (off half 0 (- half)),
          color = cGold\<rparr>,
         \<lparr>weight = 2, generator = getBoxPoint edgeThick size edgeThick (off (- half) 0 (- half)),
          color = cGold\<rparr>,
         \<lparr>weight = 2, generator = getBoxPoint size edgeThick edgeThick (off 0 half half),
          color = cGold\<rparr>,
         \<lparr>weight = 2, generator = getBoxPoint size edgeThick edgeThick (off 0 half (- half)),
          color = cGold\<rparr>,
         \<lparr>weight = 2, generator = getBoxPoint edgeThick edgeThick size (off half half 0),
          color = cGold\<rparr>,
         \<lparr>weight = 2, generator = getBoxPoint edgeThick edgeThick size (off (- half) half 0),
          color = cGold\<rparr>,
         \<lparr>weight = 2, generator = getBoxPoint size edgeThick edgeThick (off 0 (- half) half),
          color = cGold\<rparr>,
         \<lparr>weight = 2, generator = getBoxPoint size edgeThick edgeThick (off 0 (- half) (- half)),
          color = cGold\<rparr>,
         \<lparr>weight = 2, generator = getBoxPoint edgeThick edgeThick size (off half (- half) 0),
          color = cGold\<rparr>,
         \<lparr>weight = 2, generator = getBoxPoint edgeThick edgeThick size (off (- half) (- half) 0),
          color = cGold\<rparr>,
         \<lparr>weight = 5, generator = getBoxPoint 1.2 (size + 0.1) (size + 0.1) center,
          color = cGold\<rparr>,
         \<lparr>weight = 5, generator = getBoxPoint (size + 0.1) (size + 0.1) 1.2 center,
          color = cGold\<rparr>,
         \<lparr>weight = 4,
          generator = getBezierTubePoint (top 0 half 0) (top 2.0 (half + 2.0) 0)
                        (top 3.0 (half + 0.5) 0) (top 0 half 0) 0.5 0.1,
          color = cGold\<rparr>,
         \<lparr>weight = 4,
          generator = getBezierTubePoint (top 0 half 0) (top (- 2.0) (half + 2.0) 0)
                        (top (- 3.0) (half + 0.5) 0) (top 0 half 0) 0.5 0.1,
          color = cGold\<rparr>])"

definition getElkPoint :: "rng \<Rightarrow> (vec3 \<times> color) \<times> rng" where
  "getElkPoint =
     (let headCenter = Vector3 3.0 7.5 0;
          leg = (\<lambda>c rs. let (p, rs') = getCylinderPoint 3.5 0.4 0 rs in (vadd p c, rs'))
      in sampleRegions
        [\<lparr>weight = 8,
          generator = (\<lambda>rs.
            let (p, rs') = getRandomSpherePoint 1.0 rs
            in (Vector3 (vx p * 2.8) (vy p * 1.6 + 4.5) (vz p * 1.5), rs')),
          color = PALETTE_brown\<rparr>,
         \<lparr>weight = 5,
          generator = getBezierTubePoint (Vector3 1.5 5.0 0) (Vector3 2.2 6.0 0)
                        (Vector3 2.6 6.8 0) (Vector3 3.0 7.3 0) 1.6 1.0,
          color = PALETTE_brown\<rparr>,
         \<lparr>weight = 3, generator = sphereAt 1.1 headCenter, color = PALETTE_brown\<rparr>,
         \<lparr>weight = 1,
          generator = getBoxPoint 1.0 0.7 0.7 (vadd headCenter (Vector3 0.8 (- 0.2) 0)),
          color = PALETTE_darkBrown\<rparr>,
         \<lparr>weight = 1.5, generator = leg (Vector3 1.8 0 0.8), color = PALETTE_brown\<rparr>,
         \<lparr>weight = 1.5, generator = leg (Vector3 1.8 0 (- 0.8)), color = PALETTE_brown\<rparr>,
         \<lparr>weight = 1.5, generator = leg (Vector3 (- 1.8) 0 0.8), color = PALETTE_brown\<rparr>,
         \<lparr>weight = 1.5, generator = leg (Vector3 (- 1.8) 0 (- 0.8)), color = PALETTE_brown\<rparr>,
         \<lparr>weight = 3,
          generator = (\<lambda>rs.
            let zSide = (if rs 0 > 0.5 then 1 else - 1);
                origin' = vadd headCenter (Vector3 0 0.8 (0.4 * zSide));
                r = rs 1
            in if r < 0.5 then
                 getBranchPoint origin' (vadd origin' (Vector3 (- 1.5) 2.5 (0.8 * zSide))) 0.15
                   (rdrop 2 rs)
               else
                 let beam = vadd origin' (Vector3 (- 0.5) 0.8 (0.3 * zSide))
                 in getBranchPoint beam (vadd beam (Vector3 0.5 1.0 0)) 0.1 (rdrop 2 rs)),
          color = PALETTE_goldLight\<rparr>,
         \<lparr>weight = 0.5, generator = sphereAt 0.5 (Vector3 (- 2.9) 5.2 0), color = PALETTE_white\<rparr>])"

subsection \<open>Text points\<close>

text \<open>
  The text generators call \<open>getCanvasTextPoints\<close>, so they read and extend
  \<open>TEXT_POINT_CACHE\<close> besides drawing random numbers: the state they thread is the pair
  of the two. The canvas context is a parameter, as before. The parameter \<open>total\<close> of the
  code is unused; it is \<open>total'\<close> here.
\<close>

type_synonym gen_state = "rng \<times> point_cache"
type_synonym ShapeData = "vec3 \<times> color"

definition getVolumetricTextPoint ::
  "canvas2d option \<Rightarrow> string \<Rightarrow> string \<Rightarrow> nat \<Rightarrow> real \<Rightarrow> gen_state
     \<Rightarrow> js_error + (vec3 \<times> gen_state)" where
  "getVolumetricTextPoint canvas txt font index thickness st =
     (let (rs, cache) = st;
          (points, cache') = getCanvasTextPoints canvas cache txt font 2.0
      in case getVolumetricShapePoint (Some points) index thickness rs of
           Inl e \<Rightarrow> Inl e
         | Inr (pt, rs') \<Rightarrow> Inr (pt, (rs', cache')))"

definition getGradientTextPoint ::
  "canvas2d option \<Rightarrow> string \<Rightarrow> string \<Rightarrow> nat \<Rightarrow> real \<Rightarrow> color \<Rightarrow> color \<Rightarrow> real
     \<Rightarrow> gen_state \<Rightarrow> js_error + (ShapeData \<times> gen_state)" where
  "getGradientTextPoint canvas txt font index thickness gradStart gradEnd widthApprox st =
     (case getVolumetricTextPoint canvas txt font index thickness st of
        Inl e \<Rightarrow> Inl e
      | Inr (pos, st') \<Rightarrow>
          let halfW = widthApprox / 2;
              t = (vx pos + halfW) / widthApprox;
              t' = max 0 (min 1 t);
              color = Lerp gradStart gradEnd t'
          in Inr ((pos, color), st'))"

definition getTextPoint ::
  "canvas2d option \<Rightarrow> nat \<Rightarrow> nat \<Rightarrow> string \<Rightarrow> gen_state \<Rightarrow> js_error + (ShapeData \<times> gen_state)" where
  "getTextPoint canvas index total' colorStr st =
     (let customColor = Color colorStr
      in case getGradientTextPoint canvas (''MERRY'' @ [CHR 0x0A] @ ''CHRISTMAS'')
                ''700 {size} 'Cinzel', serif'' index 1.0 customColor customColor 20 st of
           Inl e \<Rightarrow> Inl e
         | Inr ((pos, c), st') \<Rightarrow> Inr ((pos, customColor), st'))"

definition getAnkermakerPoint ::
  "canvas2d option \<Rightarrow> nat \<Rightarrow> nat \<Rightarrow> string \<Rightarrow> gen_state \<Rightarrow> js_error + (ShapeData \<times> gen_state)" where
  "getAnkermakerPoint canvas index total' colorStr st =
     (let customColor = Color colorStr;
          accent = OffsetHSL customColor 0 0 (- 0.2)
      in getGradientTextPoint canvas ''Ankermaker'' ''900 {size} 'Arial Black', sans-serif''
           index 1.5 customColor accent 18 st)"

definition getAnkerPoint ::
  "canvas2d option \<Rightarrow> nat \<Rightarrow> nat \<Rightarrow> string \<Rightarrow> gen_state \<Rightarrow> js_error + (ShapeData \<times> gen_state)" where
  "getAnkerPoint canvas index total' colorStr st =
     (let customColor = Color colorStr;
          accent = OffsetHSL customColor 0 0 (- 0.2)
      in getGradientTextPoint canvas ''ANKER'' ''900 {size} 'Arial Black', 'Inter', sans-serif''
           index 1.5 customColor accent 15 st)"

definition getSoundcorePoint ::
  "canvas2d option \<Rightarrow> nat \<Rightarrow> nat \<Rightarrow> string \<Rightarrow> gen_state \<Rightarrow> js_error + (ShapeData \<times> gen_state)" where
  "getSoundcorePoint canvas index total' colorStr st =
     (let customColor = Color colorStr;
          accent = OffsetHSL customColor 0 0 (- 0.2)
      in getGradientTextPoint canvas ''soundcore'' ''700 {size} 'Arial', sans-serif''
           index 1.5 customColor accent 22 st)"

definition getEufyPoint ::
  "canvas2d option \<Rightarrow> nat \<Rightarrow> nat \<Rightarrow> string \<Rightarrow> gen_state \<Rightarrow> js_error + (ShapeData \<times> gen_state)" where
  "getEufyPoint canvas index total' colorStr st =
     (let customColor = Color colorStr;
          accent = OffsetHSL customColor 0 0 (- 0.2)
      in getGradientTextPoint canvas ''eufy'' ''700 {size} 'Arial', sans-serif''
           index 1.5 customColor accent 10 st)"

subsection \<open>The target computation of \<open>Foliage\<close>\<close>

text \<open>
  Modelled from the spec: the interface \<open>AppConfig\<close> is declared in \<open>types.ts\<close>, which is
  not among the sources. The records hold the fields of \<open>config.tree\<close> and
  \<open>config.colors\<close> that the target computation reads.
\<close>

record tree_config =
  tree_height :: real
  tree_radius :: real
  tree_spirals :: real
  tree_spiralTightness :: real
  tree_densityBias :: real

record colors_config =
  colors_emerald :: string
  colors_gold :: string
  colors_red :: string
  colors_text :: string
  colors_anker :: string
  colors_ankermaker :: string
  colors_soundcore :: string
  colors_eufy :: string

record AppConfig =
  config_tree :: tree_config
  config_colors :: colors_config

text \<open>
  \<open>getDynamicTextPoint\<close>, local to the effect: the points of an uploaded logo, when the
  formation has some, replace the text raster. \<open>logoPointCache\<close> is a
  \<open>Map<FormationType, Vector3[]>\<close>.
\<close>

definition getDynamicTextPoint ::
  "AppConfig \<Rightarrow> (FormationType \<rightharpoonup> vec3 list) \<Rightarrow> canvas2d option \<Rightarrow> FormationType \<Rightarrow> nat \<Rightarrow> nat
     \<Rightarrow> gen_state \<Rightarrow> js_error + (ShapeData \<times> gen_state)" where
  "getDynamicTextPoint config logoPointCache canvas type index total' st =
     (let colorValue =
            (if type = ANKER then colors_anker (config_colors config)
             else if type = ANKERMAKER then colors_ankermaker (config_colors config)
             else if type = SOUNDCORE then colors_soundcore (config_colors config)
             else if type = EUFY then colors_eufy (config_colors config)
             else colors_text (config_colors config));
          customColor = Color colorValue;
          customPoints = logoPointCache type
      in if customPoints \<noteq> None \<and> length (the customPoints) > 0 then
           (case getVolumetricShapePoint customPoints index 1.5 (fst st) of
              Inl e \<Rightarrow> Inl e
            | Inr (pos, rs') \<Rightarrow> Inr ((pos, customColor), (rs', snd st)))
         else
           (case type of
              ANKERMAKER \<Rightarrow> getAnkermakerPoint canvas index total' colorValue st
            | ANKER \<Rightarrow> getAnkerPoint canvas index total' colorValue st
            | SOUNDCORE \<Rightarrow> getSoundcorePoint canvas index total' colorValue st
            | EUFY \<Rightarrow> getEufyPoint canvas index total' colorValue st
            | _ \<Rightarrow> getTextPoint canvas index total' colorValue st))"

text \<open>
  The call \<open>getTreePoint(config.tree.height, config.tree.radius, config.tree.spirals,
  config.tree.spiralTightness, -2.0, config.tree.densityBias)\<close>, which three cases of the
  switch make.
\<close>

definition configuredTreePoint :: "AppConfig \<Rightarrow> rng \<Rightarrow> vec3 \<times> rng" where
  "configuredTreePoint config =
     getTreePoint (tree_height (config_tree config)) (tree_radius (config_tree config))
       (tree_spirals (config_tree config)) (tree_spiralTightness (config_tree config))
       (- 2.0) (tree_densityBias (config_tree config))"

text \<open>
  The body of the loop for one particle: the \<open>switch (formation)\<close>, which gives the point
  \<open>pt\<close> and the colour. The names \<open>formation\<close> and \<open>count\<close> of the code are primed
  here. The \<open>default\<close> case is the case of \<open>TREE\<close>, the one member without a \<open>case\<close>
  of its own; in it the second random number is drawn only when the first is not above
  0.95.
\<close>

definition formationTarget ::
  "AppConfig \<Rightarrow> (FormationType \<rightharpoonup> vec3 list) \<Rightarrow> canvas2d option \<Rightarrow> FormationType \<Rightarrow> nat \<Rightarrow> nat
     \<Rightarrow> gen_state \<Rightarrow> js_error + (ShapeData \<times> gen_state)" where
  "formationTarget config logoPointCache canvas formation' i count' st =
     (let rs = fst st; cache = snd st;
          cEmerald = Color (colors_emerald (config_colors config));
          cPink = Color ''#FFB7C5'';
          cMagenta = Color ''#FF1493'';
          cCrimson = Color ''#DC143C''
      in case formation' of
           HAT \<Rightarrow>
             (let (d, rs') = getHatPoint rs in Inr ((fst d, snd d), (rs', cache)))
         | STOCKING \<Rightarrow>
             (let (d, rs') = getStockingPoint rs;
                  pt = multiplyScalar (fst d) 1.1
              in Inr ((pt, postProcessStockingColor pt (snd d)), (rs', cache)))
         | SANTA \<Rightarrow>
             (let (d, rs') = getSantaPoint rs;
                  pt = multiplyScalar (fst d) 1.1
              in Inr ((pt, snd d), (rs', cache)))
         | PINK_TREE \<Rightarrow>
             (let (pt, rs') = configuredTreePoint config rs;
                  r = rs' 0;
                  color = (if r > 0.9 then Color ''#FFFFFF''
                           else if r > 0.6 then cMagenta
                           else if r < 0.2 then Color ''#FFF0F5''
                           else cPink)
              in Inr ((pt, color), (rdrop 1 rs', cache)))
         | RED_TREE \<Rightarrow>
             (let (pt, rs') = configuredTreePoint config rs;
                  r = rs' 0;
                  color = (if r > 0.96 then Color (colors_gold (config_colors config))
                           else if r > 0.8 then Color ''#8B0000''
                           else if r < 0.2 then Color ''#FF4500''
                           else cCrimson)
              in Inr ((pt, color), (rdrop 1 rs', cache)))
         | GIFT \<Rightarrow>
             (let (d, rs') = getGiftPoint rs;
                  pt = fst d
              in Inr ((pt, postProcessGiftColor pt (snd d)), (rs', cache)))
         | TEXT \<Rightarrow> getDynamicTextPoint config logoPointCache canvas formation' i count' st
         | ANKERMAKER \<Rightarrow> getDynamicTextPoint config logoPointCache canvas formation' i count' st
         | ANKER \<Rightarrow> getDynamicTextPoint config logoPointCache canvas formation' i count' st
         | SOUNDCORE \<Rightarrow> getDynamicTextPoint config logoPointCache canvas formation' i count' st
         | EUFY \<Rightarrow> getDynamicTextPoint config logoPointCache canvas formation' i count' st
         | ELK \<Rightarrow>
             (let (d, rs') = getElkPoint rs in Inr ((fst d, snd d), (rs', cache)))
         | TREE \<Rightarrow>
             (let (pt, rs') = configuredTreePoint config rs
              in if rs' 0 > 0.95
                 then Inr ((pt, Color (colors_gold (config_colors config))), (rdrop 1 rs', cache))
                 else if rs' 1 < 0.5
                 then Inr ((pt, Color ''#001a14''), (rdrop 2 rs', cache))
                 else Inr ((pt, cEmerald), (rdrop 2 rs', cache))))"

text \<open>
  The loop \<open>for (let i = 0; i < count; i++)\<close> of the effect, from \<open>i\<close> on: it stores the
  point and the channels of the colour of particle \<open>i\<close> at \<open>i * 3\<close>, \<open>i * 3 + 1\<close> and
  \<open>i * 3 + 2\<close> of \<open>targetData.positions\<close> and \<open>targetData.colors\<close>. \<open>rgb\<close> stands for
  three.js's decoding of a colour into its channels \<open>r\<close>, \<open>g\<close>, \<open>b\<close>.
\<close>

function targetLoop ::
  "AppConfig \<Rightarrow> (FormationType \<rightharpoonup> vec3 list) \<Rightarrow> canvas2d option \<Rightarrow> (color \<Rightarrow> vec3)
     \<Rightarrow> FormationType \<Rightarrow> nat \<Rightarrow> nat \<Rightarrow> gen_state \<Rightarrow> real list \<times> real list
     \<Rightarrow> js_error + ((real list \<times> real list) \<times> gen_state)" where
  "targetLoop config logoPointCache canvas rgb formation' count' i st arrays =
     (if i < count' then
        (case formationTarget config logoPointCache canvas formation' i count' st of
           Inl e \<Rightarrow> Inl e
         | Inr ((pt, col), st') \<Rightarrow>
             let tPos = fst arrays; tCol = snd arrays;
                 tPos' = tPos[i * 3 := vx pt, i * 3 + 1 := vy pt, i * 3 + 2 := vz pt];
                 tCol' = tCol[i * 3 := vx (rgb col), i * 3 + 1 := vy (rgb col),
                              i * 3 + 2 := vz (rgb col)]
             in targetLoop config logoPointCache canvas rgb formation' count' (Suc i) st'
                  (tPos', tCol'))
      else Inr (arrays, st))"
  by pat_completeness auto
termination
  by (relation "measure (\<lambda>(config, logos, canvas, rgb, formation', count', i, st, arrays). count' - i)")
     auto

declare targetLoop.simps [simp del]

text \<open>
  For the statement: the state (remaining draws, text cache) in which the loop reaches
  particle \<open>i\<close>, and what it means that the arrays hold a point and a colour at
  particle \<open>i\<close>. A configuration and a colour decoding for a concrete run.
\<close>

primrec stateBefore ::
  "AppConfig \<Rightarrow> (FormationType \<rightharpoonup> vec3 list) \<Rightarrow> canvas2d option \<Rightarrow> FormationType \<Rightarrow> nat
     \<Rightarrow> gen_state \<Rightarrow> nat \<Rightarrow> js_error + gen_state" where
  "stateBefore config logoPointCache canvas formation' count' st 0 = Inr st"
| "stateBefore config logoPointCache canvas formation' count' st (Suc i) =
     (case stateBefore config logoPointCache canvas formation' count' st i of
        Inl e \<Rightarrow> Inl e
      | Inr s \<Rightarrow>
          (case formationTarget config logoPointCache canvas formation' i count' s of
             Inl e \<Rightarrow> Inl e
           | Inr (d, s') \<Rightarrow> Inr s'))"

definition stored_target ::
  "(color \<Rightarrow> vec3) \<Rightarrow> real list \<times> real list \<Rightarrow> nat \<Rightarrow> ShapeData \<Rightarrow> bool" where
  "stored_target rgb arrays i d =
     (fst arrays ! (i * 3) = vx (fst d) \<and> fst arrays ! (i * 3 + 1) = vy (fst d)
      \<and> fst arrays ! (i * 3 + 2) = vz (fst d)
      \<and> snd arrays ! (i * 3) = vx (rgb (snd d)) \<and> snd arrays ! (i * 3 + 1) = vy (rgb (snd d))
      \<and> snd arrays ! (i * 3 + 2) = vz (rgb (snd d)))"

definition config_example :: AppConfig where
  "config_example = \<lparr>
     config_tree = \<lparr>tree_height = 12, tree_radius = 4.5, tree_spirals = 3,
                    tree_spiralTightness = 0, tree_densityBias = 1\<rparr>,
     config_colors = \<lparr>colors_emerald = ''#0bf4aa'', colors_gold = ''#fbe774'',
                      colors_red = ''#e51010'', colors_text = ''#ffffff'',
                      colors_anker = ''#00a0e9'', colors_ankermaker = ''#88f387'',
                      colors_soundcore = ''#ffffff'', colors_eufy = ''#ffffff''\<rparr>\<rparr>"

definition rgb_example :: "color \<Rightarrow> vec3" where
  "rgb_example c = (case c of Color s \<Rightarrow> Vector3 1 1 1 | _ \<Rightarrow> Vector3 0 0 0)"


section \<open>Helper facts\<close>

lemma uniform01_nth: "uniform01 rs \<Longrightarrow> 0 \<le> rs n \<and> rs n < 1"
  by (simp add: uniform01_def)

lemma uniform01_rdrop: "uniform01 rs \<Longrightarrow> uniform01 (rdrop k rs)"
  by (simp add: uniform01_def rdrop_def)

lemma polar_sq:
  fixes r :: real
  shows "(r * s * c)\<^sup>2 + (r * s * d)\<^sup>2 + (r * e)\<^sup>2 = r\<^sup>2 * (s\<^sup>2 * (c\<^sup>2 + d\<^sup>2) + e\<^sup>2)"
  by (simp add: power2_eq_square algebra_simps)

lemma sphere_sq:
  fixes r :: real
  shows "(r * sin p * cos t)\<^sup>2 + (r * sin p * sin t)\<^sup>2 + (r * cos p)\<^sup>2 = r\<^sup>2"
proof -
  have "(cos t)\<^sup>2 + (sin t)\<^sup>2 = 1" "(sin p)\<^sup>2 + (cos p)\<^sup>2 = 1"
    by simp_all
  then show ?thesis
    by (simp add: polar_sq)
qed

lemma cbrt_unit:
  assumes "0 \<le> u" "u < 1"
  shows "0 \<le> root 3 u \<and> root 3 u < 1"
proof -
  have "root 3 u < root 3 1"
    using assms by (simp add: real_root_less_iff)
  then show ?thesis
    using assms by simp
qed

lemma Math_pow_unit:
  assumes "0 \<le> u" "u < 1" "0 < d"
  shows "0 \<le> Math_pow u (1 / d) \<and> Math_pow u (1 / d) \<le> 1"
  using assms by (simp add: Math_pow_def powr_le1)

lemma circle_sq:
  fixes r :: real
  shows "(r * cos a)\<^sup>2 + (r * sin a)\<^sup>2 = r\<^sup>2"
proof -
  have "(r * cos a)\<^sup>2 + (r * sin a)\<^sup>2 = r\<^sup>2 * (cos a)\<^sup>2 + r\<^sup>2 * (sin a)\<^sup>2"
    by (simp add: power_mult_distrib)
  also have "\<dots> = r\<^sup>2 * ((cos a)\<^sup>2 + (sin a)\<^sup>2)"
    by (simp only: distrib_left)
  also have "\<dots> = r\<^sup>2"
    by simp
  finally show ?thesis .
qed

lemma scaled_sq_le:
  fixes R f :: real
  assumes "0 \<le> R" "0 \<le> f" "f \<le> 1"
  shows "(R * f)\<^sup>2 \<le> R\<^sup>2"
proof -
  have "R * f \<le> R * 1"
    using assms by (intro mult_left_mono) simp_all
  moreover have "0 \<le> R * f"
    using assms by simp
  ultimately show ?thesis
    by (simp add: power_mono)
qed

lemma rFactor_unit:
  fixes q t :: real
  assumes "0 \<le> q" "q \<le> 1" "0 \<le> t" "t \<le> 1"
  shows "0 \<le> q + (1 - q) * (t * 0.5) \<and> q + (1 - q) * (t * 0.5) \<le> 1"
proof -
  have a: "0 \<le> (1 - q) * (t * 0.5)"
    using assms by simp
  have "(1 - q) * (t * 0.5) \<le> (1 - q) * 1"
    using assms by (intro mult_left_mono) simp_all
  with a assms show ?thesis by simp
qed

lemma uniform01_const: "0 \<le> c \<Longrightarrow> c < 1 \<Longrightarrow> uniform01 (const_draws c)"
  by (simp add: uniform01_def const_draws_def)

lemma jitter_bound:
  fixes u :: real
  assumes "0 \<le> u" "u < 1"
  shows "\<bar>(u - 0.5) * 0.1\<bar> \<le> 0.05"
proof -
  have "\<bar>u - 1 / 2\<bar> \<le> 1 / 2"
    using assms by linarith
  then have "\<bar>u - 1 / 2\<bar> * (1 / 10) \<le> 1 / 2 * (1 / 10)"
    by (intro mult_right_mono) simp_all
  then show ?thesis
    by (simp add: abs_mult)
qed

lemma depth_bound:
  fixes u t :: real
  assumes "0 \<le> u" "u < 1"
  shows "\<bar>(u - 0.5) * t\<bar> \<le> \<bar>t\<bar> / 2"
proof -
  have "\<bar>u - 1 / 2\<bar> \<le> 1 / 2"
    using assms by linarith
  then have "\<bar>u - 0.5\<bar> \<le> 1 / 2"
    by simp
  then have "\<bar>u - 0.5\<bar> * \<bar>t\<bar> \<le> 1 / 2 * \<bar>t\<bar>"
    by (intro mult_right_mono) simp_all
  then show ?thesis
    by (simp add: abs_mult)
qed

lemma foldl_weight: "foldl (\<lambda>sum r. sum + weight r) a regions = a + sum_list (map weight regions)"
  by (induction regions arbitrary: a) simp_all

lemma totalWeight_sum: "totalWeight regions = sum_list (map weight regions)"
  by (simp add: totalWeight_def foldl_weight)

lemma cumWeight_0: "cumWeight regions 0 = 0"
  by (simp add: cumWeight_def)

lemma cumWeight_Cons: "cumWeight (r # regions) (Suc k) = weight r + cumWeight regions k"
  by (simp add: cumWeight_def)

lemma cumWeight_Suc:
  "k < length regions \<Longrightarrow> cumWeight regions (Suc k) = cumWeight regions k + weight (regions ! k)"
  by (simp add: cumWeight_def take_Suc_conv_app_nth)

lemma cumWeight_mono:
  assumes "\<forall>r \<in> set regions. 0 \<le> weight r" "j \<le> k" "k \<le> length regions"
  shows "cumWeight regions j \<le> cumWeight regions k"
  using assms(2,3)
proof (induction k)
  case 0
  then show ?case by simp
next
  case (Suc k)
  show ?case
  proof (cases "j = Suc k")
    case True
    then show ?thesis by simp
  next
    case False
    with Suc have "cumWeight regions j \<le> cumWeight regions k" by simp
    moreover have "0 \<le> weight (regions ! k)"
      using assms(1) Suc.prems by simp
    ultimately show ?thesis
      using Suc.prems by (simp add: cumWeight_Suc)
  qed
qed

lemma sampleLoop_picks:
  assumes "\<forall>r \<in> set regions. 0 \<le> weight r" "0 \<le> u" "u < sum_list (map weight regions)"
  shows "\<exists>k < length regions. cumWeight regions k \<le> u
           \<and> u < cumWeight regions k + weight (regions ! k)
           \<and> sampleLoop regions u = Some (regions ! k)"
  using assms
proof (induction regions arbitrary: u)
  case Nil
  then show ?case by simp
next
  case (Cons r regions)
  show ?case
  proof (cases "u < weight r")
    case True
    with Cons.prems(2) have "cumWeight (r # regions) 0 \<le> u
        \<and> u < cumWeight (r # regions) 0 + weight ((r # regions) ! 0)
        \<and> sampleLoop (r # regions) u = Some ((r # regions) ! 0)"
      by (simp add: cumWeight_0)
    then show ?thesis by blast
  next
    case False
    with Cons.prems have "\<forall>r \<in> set regions. 0 \<le> weight r" "0 \<le> u - weight r"
        "u - weight r < sum_list (map weight regions)"
      by simp_all
    from Cons.IH [OF this] obtain k where k: "k < length regions"
        "cumWeight regions k \<le> u - weight r"
        "u - weight r < cumWeight regions k + weight (regions ! k)"
        "sampleLoop regions (u - weight r) = Some (regions ! k)"
      by blast
    with False have "Suc k < length (r # regions) \<and> cumWeight (r # regions) (Suc k) \<le> u
        \<and> u < cumWeight (r # regions) (Suc k) + weight ((r # regions) ! Suc k)
        \<and> sampleLoop (r # regions) u = Some ((r # regions) ! Suc k)"
      by (simp add: cumWeight_Cons)
    then show ?thesis by blast
  qed
qed

lemma interval_unique:
  assumes "\<forall>r \<in> set regions. 0 \<le> weight r"
    and "j < length regions" "cumWeight regions j \<le> u" "u < cumWeight regions j + weight (regions ! j)"
    and "k < length regions" "cumWeight regions k \<le> u" "u < cumWeight regions k + weight (regions ! k)"
  shows "j = k"
proof (rule ccontr)
  assume "j \<noteq> k"
  then consider "j < k" | "k < j" by linarith
  then show False
  proof cases
    case 1
    then have "cumWeight regions (Suc j) \<le> cumWeight regions k"
      using assms(1,5) by (intro cumWeight_mono) simp_all
    then show False
      using assms(2,4,6) by (simp add: cumWeight_Suc)
  next
    case 2
    then have "cumWeight regions (Suc k) \<le> cumWeight regions j"
      using assms(1,2) by (intro cumWeight_mono) simp_all
    then show False
      using assms(5,7,3) by (simp add: cumWeight_Suc)
  qed
qed

lemma hypot_zero: "Math_hypot a 0 = \<bar>a\<bar>"
  by (simp add: Math_hypot_def)

lemmas handler_defs = onResults_def smooth_def rawPose_def getExt_def handSize_def
  confirmPose_def rotateStep_def zoomStep_def snapStep_def holdStep_def hypot_zero Let_def
  EXT_TH_def CURL_TH_def THUMB_EXT_TH_def EMA_ALPHA_def CONFIDENCE_THRESHOLD_def

lemma rotateStep_hold:
  "currentPose (fst (rotateStep c tip refs)) = currentPose refs
   \<and> poseHoldStart (fst (rotateStep c tip refs)) = poseHoldStart refs"
  by (simp add: rotateStep_def)

lemma zoomStep_hold:
  "currentPose (fst (zoomStep c hs z refs)) = currentPose refs
   \<and> poseHoldStart (fst (zoomStep c hs z refs)) = poseHoldStart refs"
  by (simp add: zoomStep_def Let_def split: option.splits)

lemma snapStep_hold:
  "currentPose (fst (snapStep c t refs)) = currentPose refs
   \<and> poseHoldStart (fst (snapStep c t refs)) = poseHoldStart refs"
  by (simp add: snapStep_def)

lemma hold_frame_formed:
  assumes "hold_frame g t cp hs cp' hs' a" and "a = Some FORMED"
  shows "g = FIST \<and> cp = FIST \<and> t - hs > 300"
  using assms unfolding hold_frame_def by simp

lemma hold_frame_chaos:
  assumes "hold_frame g t cp hs cp' hs' a" and "a = Some CHAOS"
  shows "g = OPEN \<and> cp = OPEN \<and> t - hs > 300"
  using assms unfolding hold_frame_def by simp

lemma hold_frame_other:
  assumes "hold_frame g t cp hs cp' hs' a" and "g \<in> {ROTATE, PEACE_ZOOM, LIKE_SNAP, IDLE}"
  shows "a = None"
proof -
  from assms(1) have "g \<noteq> FIST \<and> g \<noteq> OPEN \<longrightarrow> a = None"
    unfolding hold_frame_def by (elim conjE)
  with assms(2) show ?thesis by auto
qed

lemma hold_frame_current:
  assumes "hold_frame g t cp hs cp' hs' a" and "P = FIST \<or> P = OPEN" and "cp' = P"
  shows "(g = P \<and> t \<le> hs') \<or> ((g = P \<or> g = IDLE) \<and> cp = P \<and> hs' = hs)"
proof -
  from assms(1) have "\<forall>P. (P = FIST \<or> P = OPEN) \<and> cp' = P \<longrightarrow>
            (g = P \<and> t \<le> hs') \<or> ((g = P \<or> g = IDLE) \<and> cp = P \<and> hs' = hs)"
    unfolding hold_frame_def by (elim conjE)
  then have "(P = FIST \<or> P = OPEN) \<and> cp' = P \<longrightarrow>
            (g = P \<and> t \<le> hs') \<or> ((g = P \<or> g = IDLE) \<and> cp = P \<and> hs' = hs)"
    by (rule spec)
  with assms(2,3) show ?thesis by simp
qed

lemma holdStep_frame:
  assumes "holdStep g t refs = (refs', pr, a)"
  shows "hold_frame g t (currentPose refs) (poseHoldStart refs) (currentPose refs')
           (poseHoldStart refs') a"
  using assms
  by (auto simp add: holdStep_def hold_frame_def Let_def split: if_splits)

lemma onResults_frame:
  assumes "onResults refs f = Inr (refs', e)"
  shows "hold_frame (gesture e) (now f) (currentPose refs) (poseHoldStart refs)
           (currentPose refs') (poseHoldStart refs') (appStateSet e)"
proof (cases "multiHandLandmarks f = None \<or> multiHandLandmarks f = Some []")
  case True
  with assms have "refs' = refs\<lparr>prevIndexPos := None, initialHandSize := None\<rparr>"
      "gesture e = IDLE" "appStateSet e = None"
    by (auto simp add: onResults_def)
  then show ?thesis
    by (simp add: hold_frame_def)
next
  case False
  then obtain rawLM others where h: "multiHandLandmarks f = Some (rawLM # others)"
    by (cases "multiHandLandmarks f") (auto simp add: neq_Nil_conv)
  from assms h obtain lm where lm: "smooth (smoothedLandmarks refs) rawLM = Inr lm"
    by (auto simp add: onResults_def split: sum.splits)
  from assms h lm obtain raw where raw: "rawPose lm = Inr raw"
    by (auto simp add: onResults_def split: sum.splits)
  define refs2 where "refs2 = refs\<lparr>smoothedLandmarks := lm,
      poseCounters := fst (confirmPose (poseCounters refs) raw)\<rparr>"
  define c where "c = snd (confirmPose (poseCounters refs) raw)"
  define refs3 where "refs3 = fst (rotateStep c (lm ! 8) refs2)"
  define refs4 where "refs4 = fst (zoomStep c (handSize lm) (zoomDistance f) refs3)"
  define refs5 where "refs5 = fst (snapStep c (now f) refs4)"
  have same: "currentPose refs5 = currentPose refs" "poseHoldStart refs5 = poseHoldStart refs"
    by (simp_all add: refs5_def refs4_def refs3_def refs2_def rotateStep_hold zoomStep_hold
        snapStep_hold)
  from assms h lm raw have "holdStep c (now f) refs5 = (refs', holdProgress e, appStateSet e)"
      "gesture e = c"
    by (auto simp add: onResults_def Let_def refs5_def refs4_def refs3_def refs2_def c_def
        split: prod.splits)
  with holdStep_frame [of c "now f" refs5 refs' "holdProgress e" "appStateSet e"] same
  show ?thesis by simp
qed

lemma run_length: "run refs fs = Inr (refs', es) \<Longrightarrow> length es = length fs"
  by (induction fs arbitrary: refs es) (auto split: sum.splits prod.splits)

lemma run_snoc:
  "run refs (fs @ [f]) =
     (case run refs fs of
        Inl e \<Rightarrow> Inl e
      | Inr (r, es) \<Rightarrow>
          (case onResults r f of Inl e \<Rightarrow> Inl e | Inr (r', e) \<Rightarrow> Inr (r', es @ [e])))"
  by (induction fs arbitrary: refs) (auto split: sum.splits prod.splits)

lemma run_snoc_Inr:
  assumes "run refs (fs @ [f]) = Inr (r, es)"
  shows "\<exists>r0 es0 e. run refs fs = Inr (r0, es0) \<and> onResults r0 f = Inr (r, e) \<and> es = es0 @ [e]"
proof (cases "run refs fs")
  case (Inl a)
  with assms show ?thesis
    by (simp add: run_snoc)
next
  case (Inr b)
  obtain r0 es0 where b: "b = (r0, es0)"
    by (cases b)
  show ?thesis
  proof (cases "onResults r0 f")
    case (Inl a)
    with assms Inr b show ?thesis
      by (simp add: run_snoc)
  next
    case (Inr c)
    obtain r1 e where c: "c = (r1, e)"
      by (cases c)
    from assms \<open>run refs fs = Inr b\<close> b Inr c show ?thesis
      by (simp add: run_snoc)
  qed
qed

lemma held_since_append:
  "n \<le> length es \<Longrightarrow> held_since P (es @ xs) m n = held_since P es m n"
  by (auto simp add: held_since_def nth_append)

lemma held_since_extend:
  assumes "held_since P es m n" "n = length es" "gesture e = P \<or> gesture e = IDLE"
  shows "held_since P (es @ [e]) m (Suc n)"
  using assms
  by (auto simp add: held_since_def nth_append less_Suc_eq)

lemma held_since_start:
  assumes "gesture e = P" "n = length es"
  shows "held_since P (es @ [e]) n (Suc n)"
  using assms by (auto simp add: held_since_def)

lemma run_invariant:
  assumes "run init_refs fs = Inr (r, es)"
  shows "hold_inv fs r es \<and> (\<forall>n < length fs. state_change_justified fs es n)"
  using assms
proof (induction fs arbitrary: r es rule: rev_induct)
  case Nil
  then have "r = init_refs"
    by simp
  then have "currentPose r = NONE"
    by (simp add: init_refs_def)
  then show ?case
    by (simp add: hold_inv_def)
next
  case (snoc f fs)
  from run_snoc_Inr [OF snoc.prems] obtain r0 es0 e where
    r0: "run init_refs fs = Inr (r0, es0)" and
    st: "onResults r0 f = Inr (r, e)" and
    es: "es = es0 @ [e]"
    by blast
  have len: "length es0 = length fs"
    using r0 by (rule run_length)
  from snoc.IH [OF r0] have inv0: "hold_inv fs r0 es0" and ok0: "\<forall>n < length fs. state_change_justified fs es0 n"
    by simp_all
  have fr: "hold_frame (gesture e) (now f) (currentPose r0) (poseHoldStart r0)
      (currentPose r) (poseHoldStart r) (appStateSet e)"
    using st by (rule onResults_frame)
  have inv: "hold_inv (fs @ [f]) r es"
    unfolding hold_inv_def
  proof (intro allI impI, elim conjE)
    fix P assume P: "P = FIST \<or> P = OPEN" and cp: "currentPose r = P"
    from hold_frame_current [OF fr P cp] consider
        (new) "gesture e = P" "now f \<le> poseHoldStart r"
      | (keep) "gesture e = P \<or> gesture e = IDLE" "currentPose r0 = P"
          "poseHoldStart r = poseHoldStart r0"
      by blast
    then show "\<exists>m. held_since P es m (length (fs @ [f])) \<and> now ((fs @ [f]) ! m) \<le> poseHoldStart r"
    proof cases
      case new
      then have "held_since P es (length fs) (length (fs @ [f]))"
        using held_since_start [of e P "length fs" es0] len es by simp
      moreover have "now ((fs @ [f]) ! length fs) \<le> poseHoldStart r"
        using new(2) by simp
      ultimately show ?thesis by blast
    next
      case keep
      with inv0 P obtain m where m: "held_since P es0 m (length fs)"
          "now (fs ! m) \<le> poseHoldStart r0"
        unfolding hold_inv_def by blast
      then have "m < length fs"
        by (simp add: held_since_def)
      moreover have "held_since P es m (length (fs @ [f]))"
        using held_since_extend [OF m(1) _ keep(1)] len es by simp
      ultimately show ?thesis
        using m(2) keep(3) by (auto simp add: nth_append)
    qed
  qed
  have ok: "state_change_justified (fs @ [f]) es n" if n: "n < length (fs @ [f])" for n
  proof (cases "n < length fs")
    case True
    with ok0 have o: "state_change_justified fs es0 n" by simp
    have hs: "held_since P es m n = held_since P es0 m n" for P m
      using True len es by (simp add: held_since_append)
    have nm: "(fs @ [f]) ! m = fs ! m" if "held_since P es0 m n" for P m
      using that True by (simp add: held_since_def nth_append)
    have nn: "(fs @ [f]) ! n = fs ! n" "es ! n = es0 ! n"
      using True len es by (simp_all add: nth_append)
    show ?thesis
      unfolding state_change_justified_def hs nn
      using o nm unfolding state_change_justified_def by metis
  next
    case False
    with n have nl: "n = length fs" by simp
    have "es ! length es0 = e"
      unfolding es by simp
    then have en: "es ! n = e" "(fs @ [f]) ! n = f"
      using nl len by simp_all
    have formed: "gesture e = FIST
        \<and> (\<exists>m. held_since FIST es m n \<and> now f - now ((fs @ [f]) ! m) > 300)"
      if a: "appStateSet e = Some FORMED"
    proof -
      from hold_frame_formed [OF fr a]
      have g: "gesture e = FIST" "currentPose r0 = FIST" "now f - poseHoldStart r0 > 300"
        by simp_all
      with inv0 obtain m where m: "held_since FIST es0 m (length fs)"
          "now (fs ! m) \<le> poseHoldStart r0"
        unfolding hold_inv_def by blast
      then have ml: "m < length fs" by (simp add: held_since_def)
      have "held_since FIST es m n"
        using m(1) nl len es by (simp add: held_since_append)
      moreover have "now f - now ((fs @ [f]) ! m) > 300"
        using g(3) m(2) ml by (simp add: nth_append)
      ultimately show ?thesis using g(1) by blast
    qed
    have chaos: "gesture e = OPEN
        \<and> (\<exists>m. held_since OPEN es m n \<and> now f - now ((fs @ [f]) ! m) > 300)"
      if a: "appStateSet e = Some CHAOS"
    proof -
      from hold_frame_chaos [OF fr a]
      have g: "gesture e = OPEN" "currentPose r0 = OPEN" "now f - poseHoldStart r0 > 300"
        by simp_all
      with inv0 obtain m where m: "held_since OPEN es0 m (length fs)"
          "now (fs ! m) \<le> poseHoldStart r0"
        unfolding hold_inv_def by blast
      then have ml: "m < length fs" by (simp add: held_since_def)
      have "held_since OPEN es m n"
        using m(1) nl len es by (simp add: held_since_append)
      moreover have "now f - now ((fs @ [f]) ! m) > 300"
        using g(3) m(2) ml by (simp add: nth_append)
      ultimately show ?thesis using g(1) by blast
    qed
    have other: "gesture e \<in> {ROTATE, PEACE_ZOOM, LIKE_SNAP, IDLE} \<longrightarrow> appStateSet e = None"
      using hold_frame_other [OF fr] by blast
    show ?thesis
      unfolding state_change_justified_def en using formed chaos other by blast
  qed
  from inv ok show ?case by blast
qed

lemma emaUpdate_length: "length rs \<le> length ss \<Longrightarrow> length (emaUpdate ss rs) = length ss"
  by (induction ss rs rule: emaUpdate.induct) simp_all

lemma smooth_total:
  assumes "length sm = 0 \<or> length sm = 21" and "length rawLM = 21"
  shows "\<exists>lm. smooth sm rawLM = Inr lm \<and> length lm = 21"
  using assms by (auto simp add: smooth_def emaUpdate_length)

lemma rawPose_total: "length lm = 21 \<Longrightarrow> \<exists>raw. rawPose lm = Inr raw"
  by (simp add: rawPose_def Let_def)

lemma rotateStep_lm: "smoothedLandmarks (fst (rotateStep c tip refs)) = smoothedLandmarks refs"
  by (simp add: rotateStep_def)

lemma zoomStep_lm: "smoothedLandmarks (fst (zoomStep c hs z refs)) = smoothedLandmarks refs"
  by (simp add: zoomStep_def Let_def split: option.splits)

lemma snapStep_lm: "smoothedLandmarks (fst (snapStep c t refs)) = smoothedLandmarks refs"
  by (simp add: snapStep_def)

lemma holdStep_lm: "smoothedLandmarks (fst (holdStep c t refs)) = smoothedLandmarks refs"
  by (simp add: holdStep_def Let_def)

lemma onResults_total:
  assumes "lm_ok refs" and "hand_frame_ok f"
  shows "\<exists>refs' e. onResults refs f = Inr (refs', e) \<and> lm_ok refs'"
proof (cases "multiHandLandmarks f = None \<or> multiHandLandmarks f = Some []")
  case True
  then show ?thesis
    using assms(1) by (auto simp add: onResults_def lm_ok_def)
next
  case False
  then obtain rawLM others where h: "multiHandLandmarks f = Some (rawLM # others)"
    by (cases "multiHandLandmarks f") (auto simp add: neq_Nil_conv)
  with assms(2) have "length rawLM = 21"
    by (simp add: hand_frame_ok_def)
  with assms(1) obtain lm where lm: "smooth (smoothedLandmarks refs) rawLM = Inr lm" "length lm = 21"
    using smooth_total unfolding lm_ok_def by blast
  then obtain raw where raw: "rawPose lm = Inr raw"
    using rawPose_total by blast
  define refs2 where "refs2 = refs\<lparr>smoothedLandmarks := lm,
      poseCounters := fst (confirmPose (poseCounters refs) raw)\<rparr>"
  define c where "c = snd (confirmPose (poseCounters refs) raw)"
  define refs3 where "refs3 = fst (rotateStep c (lm ! 8) refs2)"
  define refs4 where "refs4 = fst (zoomStep c (handSize lm) (zoomDistance f) refs3)"
  define refs5 where "refs5 = fst (snapStep c (now f) refs4)"
  define refs6 where "refs6 = fst (holdStep c (now f) refs5)"
  have "smoothedLandmarks refs6 = lm"
    by (simp add: refs6_def refs5_def refs4_def refs3_def refs2_def rotateStep_lm zoomStep_lm
        snapStep_lm holdStep_lm)
  then have ok: "lm_ok refs6"
    using lm(2) by (simp add: lm_ok_def)
  have "\<exists>e. onResults refs f = Inr (refs6, e)"
    using h lm(1) raw
    by (simp add: onResults_def Let_def refs6_def refs5_def refs4_def refs3_def refs2_def c_def
        split: prod.splits)
  with ok show ?thesis by blast
qed

lemma run_total:
  assumes "lm_ok refs" and "\<forall>f \<in> set fs. hand_frame_ok f"
  shows "\<exists>res. run refs fs = Inr res"
  using assms
proof (induction fs arbitrary: refs)
  case Nil
  then show ?case by simp
next
  case (Cons f fs)
  then obtain refs' e where s: "onResults refs f = Inr (refs', e)" "lm_ok refs'"
    using onResults_total [of refs f] by auto
  with Cons obtain res where "run refs' fs = Inr res"
    by fastforce
  with s(1) show ?case
    by (cases res) simp
qed

lemma lm_ok_init: "lm_ok init_refs"
  by (simp add: lm_ok_def init_refs_def)

lemma flicker_effects:
  "run_ok flickerTrace \<and> map gesture (run_effects flickerTrace) = [IDLE, FIST, IDLE, FIST]
   \<and> map appStateSet (run_effects flickerTrace) = [None, None, None, Some FORMED]"
  by (simp add: run_ok_def run_effects_def flickerTrace_def fistHand_def idleHand_def init_refs_def handler_defs)


lemma particleStep_pos_length: "length (fst (particleStep d a i arrays)) = length (fst arrays)"
  by (simp add: particleStep_def Let_def)

lemma particleStep_pos_nth:
  assumes "q < length (fst arrays)"
  shows "fst (particleStep d a i arrays) ! q =
           (if q div 3 = i then lerped d a (fst arrays) q else fst arrays ! q)"
proof -
  have d: "q div 3 = i \<longleftrightarrow> q = i * 3 \<or> q = i * 3 + 1 \<or> q = i * 3 + 2"
    by presburger
  have m: "(i * 3) div 3 = i" "Suc (i * 3) div 3 = i" "Suc (Suc (i * 3)) div 3 = i"
    by simp_all
  show ?thesis
    using assms
    by (auto simp add: particleStep_def Let_def lerped_def d m nth_list_update)
qed

lemma frameLoop_pos:
  "length (fst (frameLoop d a i arrays)) = length (fst arrays)
   \<and> (\<forall>q < length (fst arrays).
        fst (frameLoop d a i arrays) ! q =
          (if i \<le> q div 3 \<and> q div 3 < count d then lerped d a (fst arrays) q
           else fst arrays ! q))"
proof (induction d a i arrays rule: frameLoop.induct)
  case (1 d a i arrays)
  show ?case
  proof (cases "i < count d")
    case False
    then show ?thesis by (simp add: frameLoop.simps [of d a i])
  next
    case True
    let ?s = "particleStep d a i arrays"
    have len: "length (fst ?s) = length (fst arrays)"
      by (rule particleStep_pos_length)
    have ih: "length (fst (frameLoop d a (Suc i) ?s)) = length (fst ?s)"
        "\<forall>q < length (fst ?s). fst (frameLoop d a (Suc i) ?s) ! q =
          (if Suc i \<le> q div 3 \<and> q div 3 < count d then lerped d a (fst ?s) q else fst ?s ! q)"
      using "1.IH" [OF True] by simp_all
    have unf: "frameLoop d a i arrays = frameLoop d a (Suc i) ?s"
      using True by (simp add: frameLoop.simps [of d a i])
    have nth: "fst (frameLoop d a i arrays) ! q =
          (if i \<le> q div 3 \<and> q div 3 < count d then lerped d a (fst arrays) q
           else fst arrays ! q)" if q: "q < length (fst arrays)" for q
    proof -
      have s: "fst ?s ! q = (if q div 3 = i then lerped d a (fst arrays) q else fst arrays ! q)"
        using q by (rule particleStep_pos_nth)
      have l: "lerped d a (fst ?s) q = lerped d a (fst arrays) q" if "q div 3 \<noteq> i"
        using that s by (simp add: lerped_def)
      show ?thesis
        unfolding unf using ih(2) q len s l True by auto
    qed
    show ?thesis
      using nth ih(1) len unf by simp
  qed
qed

lemma lerp_between:
  fixes a b s :: real
  assumes "0 \<le> s" "s \<le> 1"
  shows "min a b \<le> a + (b - a) * s \<and> a + (b - a) * s \<le> max a b"
proof (cases "a \<le> b")
  case True
  then have "0 \<le> (b - a) * s"
    using assms by simp
  moreover have "(b - a) * s \<le> b - a"
    using mult_left_mono [of s 1 "b - a"] assms True by simp
  ultimately show ?thesis
    using True by linarith
next
  case False
  then have "0 \<le> (a - b) * s"
    using assms by simp
  moreover have "(a - b) * s \<le> a - b"
    using mult_left_mono [of s 1 "a - b"] assms False by simp
  moreover have "(b - a) * s = - ((a - b) * s)"
    by (simp add: algebra_simps)
  ultimately show ?thesis
    using False by linarith
qed

lemma canvasStep_pos: "0 < canvasStep density"
  by (simp add: canvasStep_def)


























lemma getVolumetricShapePoint_not_Inl:
  "getVolumetricShapePoint points index thickness rs \<noteq> Inl e"
  by (simp add: getVolumetricShapePoint_def Let_def split: option.splits)

lemma getVolumetricTextPoint_not_Inl:
  "getVolumetricTextPoint canvas txt font index thickness st \<noteq> Inl e"
  by (simp add: getVolumetricTextPoint_def Let_def getVolumetricShapePoint_not_Inl
      split: prod.splits sum.splits)

lemma getGradientTextPoint_not_Inl:
  "getGradientTextPoint canvas txt font index thickness gs ge wa st \<noteq> Inl e"
  by (simp add: getGradientTextPoint_def Let_def getVolumetricTextPoint_not_Inl
      split: prod.splits sum.splits)

lemma getTextPoint_not_Inl: "getTextPoint canvas index total' colorStr st \<noteq> Inl e"
  by (simp add: getTextPoint_def Let_def getGradientTextPoint_not_Inl
      split: prod.splits sum.splits)

lemma getDynamicTextPoint_not_Inl:
  "getDynamicTextPoint config logos canvas type index total' st \<noteq> Inl e"
  by (cases type)
     (simp_all add: getDynamicTextPoint_def Let_def getAnkermakerPoint_def getAnkerPoint_def
        getSoundcorePoint_def getEufyPoint_def getTextPoint_not_Inl
        getGradientTextPoint_not_Inl getVolumetricShapePoint_not_Inl
        split: prod.splits sum.splits)

lemma formationTarget_not_Inl:
  "formationTarget config logos canvas formation' i count' st \<noteq> Inl e"
  by (cases formation')
     (simp_all add: formationTarget_def Let_def getDynamicTextPoint_not_Inl split: prod.splits)

lemma formationTarget_Inr:
  "\<exists>d st'. formationTarget config logos canvas formation' i count' st = Inr (d, st')"
proof (cases "formationTarget config logos canvas formation' i count' st")
  case (Inl e)
  then show ?thesis
    using formationTarget_not_Inl by blast
next
  case (Inr r)
  then show ?thesis
    by (cases r) simp
qed

lemma triple_update_nth:
  fixes xs :: "real list"
  assumes "q < length xs"
  shows "xs[i * 3 := a, i * 3 + 1 := b, i * 3 + 2 := c] ! q =
           (if q = i * 3 then a else if q = i * 3 + 1 then b
            else if q = i * 3 + 2 then c else xs ! q)"
  using assms by (simp add: nth_list_update)

lemma triple_update_other:
  fixes xs :: "real list"
  assumes "q div 3 \<noteq> i"
  shows "xs[i * 3 := a, i * 3 + 1 := b, i * 3 + 2 := c] ! q = xs ! q"
proof -
  from assms have "q \<noteq> i * 3" "q \<noteq> i * 3 + 1" "q \<noteq> i * 3 + 2"
    by auto
  then show ?thesis
    by simp
qed

lemma targetLoop_spec:
  assumes "stateBefore config logos canvas formation' count' st0 i = Inr s"
    and "length (fst arrays) = count' * 3" and "length (snd arrays) = count' * 3"
  shows "\<exists>arrays' sf.
           targetLoop config logos canvas rgb formation' count' i s arrays = Inr (arrays', sf)
           \<and> length (fst arrays') = count' * 3 \<and> length (snd arrays') = count' * 3
           \<and> (\<forall>q. q div 3 < i \<longrightarrow> fst arrays' ! q = fst arrays ! q \<and> snd arrays' ! q = snd arrays ! q)
           \<and> (\<forall>j. i \<le> j \<and> j < count' \<longrightarrow>
                 (\<exists>sj d sj'. stateBefore config logos canvas formation' count' st0 j = Inr sj
                    \<and> formationTarget config logos canvas formation' j count' sj = Inr (d, sj')
                    \<and> stored_target rgb arrays' j d))"
  using assms
proof (induction config logos canvas rgb formation' count' i s arrays
    rule: targetLoop.induct)
  case (1 config logos canvas rgb formation' count' i s arrays)
  show ?case
  proof (cases "i < count'")
    case False
    have r: "targetLoop config logos canvas rgb formation' count' i s arrays = Inr (arrays, s)"
      using False
      by (simp add: targetLoop.simps [of config logos canvas rgb formation' count' i s arrays])
    have "\<forall>j. i \<le> j \<and> j < count' \<longrightarrow>
        (\<exists>sj d sj'. stateBefore config logos canvas formation' count' st0 j = Inr sj
           \<and> formationTarget config logos canvas formation' j count' sj = Inr (d, sj')
           \<and> stored_target rgb arrays j d)"
      using False by auto
    with r "1.prems"(2,3) show ?thesis
      by blast
  next
    case True
    obtain pt col s' where ft:
      "formationTarget config logos canvas formation' i count' s = Inr ((pt, col), s')"
      using formationTarget_Inr [of config logos canvas formation' i count' s] by auto
    define arrays1 where "arrays1 =
      ((fst arrays)[i * 3 := vx pt, i * 3 + 1 := vy pt, i * 3 + 2 := vz pt],
       (snd arrays)[i * 3 := vx (rgb col), i * 3 + 1 := vy (rgb col), i * 3 + 2 := vz (rgb col)])"
    have unf: "targetLoop config logos canvas rgb formation' count' i s arrays =
        targetLoop config logos canvas rgb formation' count' (Suc i) s' arrays1"
      using True ft
      by (simp add: targetLoop.simps [of config logos canvas rgb formation' count' i s arrays]
          Let_def arrays1_def)
    have sb: "stateBefore config logos canvas formation' count' st0 (Suc i) = Inr s'"
      using "1.prems"(1) ft by simp
    have len1: "length (fst arrays1) = count' * 3" "length (snd arrays1) = count' * 3"
      using "1.prems"(2,3) by (simp_all add: arrays1_def)
    have "\<exists>arrays' sf.
           targetLoop config logos canvas rgb formation' count' (Suc i) s' arrays1 = Inr (arrays', sf)
           \<and> length (fst arrays') = count' * 3 \<and> length (snd arrays') = count' * 3
           \<and> (\<forall>q. q div 3 < Suc i \<longrightarrow>
                 fst arrays' ! q = fst arrays1 ! q \<and> snd arrays' ! q = snd arrays1 ! q)
           \<and> (\<forall>j. Suc i \<le> j \<and> j < count' \<longrightarrow>
                 (\<exists>sj d sj'. stateBefore config logos canvas formation' count' st0 j = Inr sj
                    \<and> formationTarget config logos canvas formation' j count' sj = Inr (d, sj')
                    \<and> stored_target rgb arrays' j d))"
      using "1.IH" [OF True ft refl refl refl refl refl refl] sb len1
      unfolding arrays1_def by simp
    then obtain arrays' sf where r:
      "targetLoop config logos canvas rgb formation' count' (Suc i) s' arrays1 = Inr (arrays', sf)"
      "length (fst arrays') = count' * 3" "length (snd arrays') = count' * 3"
      "\<forall>q. q div 3 < Suc i \<longrightarrow>
         fst arrays' ! q = fst arrays1 ! q \<and> snd arrays' ! q = snd arrays1 ! q"
      "\<forall>j. Suc i \<le> j \<and> j < count' \<longrightarrow>
         (\<exists>sj d sj'. stateBefore config logos canvas formation' count' st0 j = Inr sj
            \<and> formationTarget config logos canvas formation' j count' sj = Inr (d, sj')
            \<and> stored_target rgb arrays' j d)"
      by blast
    have old: "fst arrays' ! q = fst arrays ! q \<and> snd arrays' ! q = snd arrays ! q"
      if "q div 3 < i" for q
    proof -
      from that have "q div 3 < Suc i" "q div 3 \<noteq> i" by simp_all
      then show ?thesis
        using r(4) by (simp add: arrays1_def triple_update_other)
    qed
    have i3: "i * 3 + 2 < count' * 3"
      using True by simp
    have here: "stored_target rgb arrays' i (pt, col)"
    proof -
      have d: "(i * 3) div 3 < Suc i" "(i * 3 + 1) div 3 < Suc i" "(i * 3 + 2) div 3 < Suc i"
        by simp_all
      have "stored_target rgb arrays1 i (pt, col)"
        using i3 "1.prems"(2,3)
        by (simp add: stored_target_def arrays1_def nth_list_update)
      then show ?thesis
        using r(4) d by (simp add: stored_target_def)
    qed
    have new: "\<exists>sj d sj'. stateBefore config logos canvas formation' count' st0 j = Inr sj
        \<and> formationTarget config logos canvas formation' j count' sj = Inr (d, sj')
        \<and> stored_target rgb arrays' j d" if "i \<le> j \<and> j < count'" for j
    proof (cases "j = i")
      case True
      then show ?thesis
        using "1.prems"(1) ft here by blast
    next
      case False
      with that have "Suc i \<le> j \<and> j < count'" by simp
      with r(5) show ?thesis by blast
    qed
    show ?thesis
      unfolding unf using r(1,2,3) old new by blast
  qed
qed

section \<open>Claims\<close>

text \<open>
  C3. The application state has exactly the two values \<open>CHAOS\<close> and \<open>FORMED\<close>; the toggle
  of the control panel sends \<open>CHAOS\<close> to \<open>FORMED\<close> and \<open>FORMED\<close> to \<open>CHAOS\<close>, and applying
  it twice gives the state back.
\<close>

theorem toggleState_involution:
  "(UNIV :: AppState set) = {CHAOS, FORMED}
   \<and> CHAOS \<noteq> FORMED
   \<and> toggleState CHAOS = FORMED
   \<and> toggleState FORMED = CHAOS
   \<and> toggleState (toggleState s) = s"
proof -
  have "(UNIV :: AppState set) = {CHAOS, FORMED}"
    using AppState.exhaust by auto
  moreover have "toggleState (toggleState s) = s"
    by (cases s) (simp_all add: toggleState_def)
  ultimately show ?thesis
    by (simp add: toggleState_def)
qed

text \<open>
  C10. For a radius \<open>radius \<ge> 0\<close> and draws in \<open>[0, 1)\<close>, the point returned by
  \<open>getRandomSpherePoint\<close> has Euclidean norm \<open>cbrt u * radius\<close>, where \<open>u\<close> is the third
  draw, and so at most \<open>radius\<close>: every position generated from it lies in the ball of
  that radius.
\<close>

theorem getRandomSpherePoint_in_ball:
  assumes "0 \<le> radius" and "uniform01 rs"
  shows "vnorm (fst (getRandomSpherePoint radius rs)) = root 3 (rs 2) * radius
         \<and> 0 \<le> rs 2 \<and> rs 2 < 1
         \<and> vnorm (fst (getRandomSpherePoint radius rs)) \<le> radius"
proof -
  let ?r = "root 3 (rs 2) * radius"
  have u: "0 \<le> rs 2" "rs 2 < 1"
    using assms(2) uniform01_nth by blast+
  have c: "0 \<le> root 3 (rs 2)" "root 3 (rs 2) < 1"
    using cbrt_unit [OF u] by simp_all
  have r0: "0 \<le> ?r"
    using c(1) assms(1) by simp
  have "vnorm (fst (getRandomSpherePoint radius rs)) = sqrt (?r\<^sup>2)"
    by (simp add: getRandomSpherePoint_def Let_def vnorm_def Vector3_def sphere_sq)
  then have n: "vnorm (fst (getRandomSpherePoint radius rs)) = ?r"
    using r0 by simp
  have "?r \<le> 1 * radius"
    using c(2) assms(1) by (intro mult_right_mono) simp_all
  with n u show ?thesis
    by simp
qed

theorem getRandomSpherePoint_in_ball_witness:
  "(0::real) \<le> 18 \<and> uniform01 (const_draws (1 / 2))
   \<and> vnorm (fst (getRandomSpherePoint 18 (const_draws (1 / 2)))) \<le> 18"
  using getRandomSpherePoint_in_ball [of 18 "const_draws (1 / 2)"]
  by (simp add: uniform01_const)

text \<open>
  C8. For \<open>height > 0\<close>, \<open>maxRadius \<ge> 0\<close>, \<open>densityBias > 0\<close> and \<open>spiralTightness\<close> in
  \<open>[0, 1]\<close>, the point \<open>p\<close> returned by \<open>getTreePoint\<close> has \<open>p.y - verticalOffset\<close> in
  \<open>[0, height]\<close> and \<open>p.x\<^sup>2 + p.z\<^sup>2\<close> at most the square of the cone's radius at that
  height, whatever the number of spirals and the draws.
\<close>

theorem getTreePoint_in_cone:
  assumes "0 < height" "0 \<le> maxRadius" "0 < densityBias"
    and "0 \<le> spiralTightness" "spiralTightness \<le> 1" and "uniform01 rs"
  shows "let p = fst (getTreePoint height maxRadius spirals spiralTightness verticalOffset densityBias rs)
         in 0 \<le> vy p - verticalOffset \<and> vy p - verticalOffset \<le> height
            \<and> (vx p)\<^sup>2 + (vz p)\<^sup>2 \<le> (maxRadius * (1 - (vy p - verticalOffset) / height))\<^sup>2"
proof -
  define yNorm where "yNorm = Math_pow (rs 0) (1 / densityBias)"
  define R where "R = maxRadius * (1 - yNorm * height / height)"
  have yn: "0 \<le> yNorm" "yNorm \<le> 1"
    using Math_pow_unit [of "rs 0" densityBias] uniform01_nth [OF assms(6), of 0] assms(3)
    by (simp_all add: yNorm_def)
  have y: "0 \<le> yNorm * height" "yNorm * height \<le> height"
    using yn assms(1) by (simp_all add: mult_left_le_one_le)
  have R0: "0 \<le> R"
    using yn assms(1,2) by (simp add: R_def)
  have q: "0 \<le> sqrt (rs 2)" "sqrt (rs 2) \<le> 1"
    using uniform01_nth [OF assms(6), of 2] by simp_all
  have f: "0 \<le> sqrt (rs 2) + (1 - sqrt (rs 2)) * (spiralTightness * 0.5)"
          "sqrt (rs 2) + (1 - sqrt (rs 2)) * (spiralTightness * 0.5) \<le> 1"
    using rFactor_unit [OF q assms(4,5)] by simp_all
  show ?thesis
  proof (cases "0 < spirals")
    case True
    then show ?thesis
      using y scaled_sq_le [OF R0 f]
      by (simp add: getTreePoint_def Let_def Vector3_def circle_sq yNorm_def R_def)
  next
    case False
    then show ?thesis
      using y scaled_sq_le [OF R0 q]
      by (simp add: getTreePoint_def Let_def Vector3_def circle_sq yNorm_def R_def)
  qed
qed

theorem getTreePoint_in_cone_witness:
  "(0::real) < 12 \<and> (0::real) \<le> 4.5 \<and> (0::real) < 1 \<and> (0::real) \<le> 0 \<and> (0::real) \<le> 1
   \<and> uniform01 (const_draws (1 / 4))
   \<and> (let p = fst (getTreePoint 12 4.5 3 0 (- 2) 1 (const_draws (1 / 4)))
      in 0 \<le> vy p - (- 2) \<and> vy p - (- 2) \<le> 12
         \<and> (vx p)\<^sup>2 + (vz p)\<^sup>2 \<le> (4.5 * (1 - (vy p - (- 2)) / 12))\<^sup>2)"
  using getTreePoint_in_cone [where height = 12 and maxRadius = "4.5" and densityBias = 1
      and spiralTightness = 0 and rs = "const_draws (1 / 4)" and spirals = 3
      and verticalOffset = "- 2"]
  by (simp add: uniform01_const)

text \<open>
  C9, as stated, at a negative thickness: with \<open>thickness = -2\<close> and every draw \<open>0\<close> the
  returned \<open>z\<close> is \<open>(0 - 0.5) * (-2) = 1\<close>, which is not in \<open>[-thickness/2, thickness/2]\<close>
  (the interval from \<open>1\<close> to \<open>-1\<close>).
\<close>

theorem getVolumetricShapePoint_negative_thickness:
  "uniform01 (const_draws 0)
   \<and> getVolumetricShapePoint (Some [origin]) 0 (- 2) (const_draws 0)
       = Inr (Vector3 (- 0.05) (- 0.05) 1, rdrop 3 (const_draws 0))
   \<and> \<not> (- (- 2) / 2 \<le> vz (Vector3 (- 0.05) (- 0.05) 1)
          \<and> vz (Vector3 (- 0.05) (- 0.05) 1) \<le> (- 2 :: real) / 2)"
proof -
  have "uniform01 (const_draws 0)"
    by (simp add: uniform01_const)
  moreover have "getVolumetricShapePoint (Some [origin]) 0 (- 2) (const_draws 0)
       = Inr (Vector3 (- 0.05) (- 0.05) 1, rdrop 3 (const_draws 0))"
    by (simp add: getVolumetricShapePoint_def origin_def Vector3_def const_draws_def)
  ultimately show ?thesis
    by (simp add: Vector3_def)
qed

text \<open>
  C9, amended. For every point list, natural index, thickness and draws in \<open>[0, 1)\<close>,
  \<open>getVolumetricShapePoint\<close> returns a point and never reads beyond the list: on a
  missing or empty list it returns the origin; otherwise \<open>index mod points.length\<close> is a
  valid index, the returned \<open>x\<close> and \<open>y\<close> are within \<open>0.05\<close> of the looked-up point's, and
  \<open>|z| \<le> |thickness| / 2\<close>, which for \<open>thickness \<ge> 0\<close> is \<open>z\<close> in
  \<open>[-thickness/2, thickness/2]\<close>.
\<close>

theorem getVolumetricShapePoint_total:
  assumes "uniform01 rs"
  shows "(points = None \<or> points = Some []
            \<longrightarrow> getVolumetricShapePoint points index thickness rs = Inr (origin, rs))
         \<and> (\<forall>pts. points = Some pts \<and> pts \<noteq> [] \<longrightarrow>
               index mod length pts < length pts
               \<and> (\<exists>p. getVolumetricShapePoint points index thickness rs = Inr (p, rdrop 3 rs)
                      \<and> \<bar>vx p - vx (pts ! (index mod length pts))\<bar> \<le> 0.05
                      \<and> \<bar>vy p - vy (pts ! (index mod length pts))\<bar> \<le> 0.05
                      \<and> \<bar>vz p\<bar> \<le> \<bar>thickness\<bar> / 2
                      \<and> (0 \<le> thickness \<longrightarrow> - thickness / 2 \<le> vz p \<and> vz p \<le> thickness / 2)))"
proof -
  have u: "0 \<le> rs 0" "rs 0 < 1" "0 \<le> rs 1" "rs 1 < 1" "0 \<le> rs 2" "rs 2 < 1"
    using assms uniform01_nth by blast+
  have z: "\<bar>(rs 0 - 0.5) * thickness\<bar> \<le> \<bar>thickness\<bar> / 2"
    using depth_bound [OF u(1,2)] .
  have x: "\<bar>(rs 1 - 0.5) * 0.1\<bar> \<le> 0.05"
    using jitter_bound [OF u(3,4)] .
  have y: "\<bar>(rs 2 - 0.5) * 0.1\<bar> \<le> 0.05"
    using jitter_bound [OF u(5,6)] .
  have z': "0 \<le> thickness \<Longrightarrow>
      - thickness / 2 \<le> (rs 0 - 0.5) * thickness \<and> (rs 0 - 0.5) * thickness \<le> thickness / 2"
    using z by linarith
  have empty: "points = None \<or> points = Some []
      \<longrightarrow> getVolumetricShapePoint points index thickness rs = Inr (origin, rs)"
    by (auto simp add: getVolumetricShapePoint_def)
  have full: "index mod length pts < length pts
      \<and> (\<exists>p. getVolumetricShapePoint points index thickness rs = Inr (p, rdrop 3 rs)
             \<and> \<bar>vx p - vx (pts ! (index mod length pts))\<bar> \<le> 0.05
             \<and> \<bar>vy p - vy (pts ! (index mod length pts))\<bar> \<le> 0.05
             \<and> \<bar>vz p\<bar> \<le> \<bar>thickness\<bar> / 2
             \<and> (0 \<le> thickness \<longrightarrow> - thickness / 2 \<le> vz p \<and> vz p \<le> thickness / 2))"
    if "points = Some pts" "pts \<noteq> []" for pts
    using that x y z z'
    by (simp add: getVolumetricShapePoint_def Let_def Vector3_def)
  from empty full show ?thesis
    by blast
qed

theorem getVolumetricShapePoint_total_witness:
  "uniform01 (const_draws (1 / 4))
   \<and> (\<exists>p. getVolumetricShapePoint (Some [Vector3 1 2 3, Vector3 4 5 6]) 7 1.5 (const_draws (1 / 4))
            = Inr (p, rdrop 3 (const_draws (1 / 4)))
          \<and> \<bar>vx p - 4\<bar> \<le> 0.05 \<and> \<bar>vy p - 5\<bar> \<le> 0.05 \<and> \<bar>vz p\<bar> \<le> 1.5 / 2)"
proof -
  have u: "uniform01 (const_draws (1 / 4))"
    by (simp add: uniform01_const)
  have i: "7 mod length [Vector3 1 2 3, Vector3 4 5 6] = 1"
    by (simp add: numeral_2_eq_2 [symmetric])
  show ?thesis
    using u i getVolumetricShapePoint_total [OF u, where index = 7 and thickness = "1.5"
        and points = "Some [Vector3 1 2 3, Vector3 4 5 6]"]
    by (auto simp add: Vector3_def)
qed

text \<open>
  C2. For a region list whose weights are all nonnegative with a positive total, and a
  draw in \<open>[0, 1)\<close>, the sample \<open>u = random * totalWeight\<close> lies in \<open>[0, totalWeight)\<close>,
  exactly one region has \<open>u\<close> in its cumulative-weight interval
  \<open>[sum of earlier weights, sum of earlier weights + own weight)\<close>, and \<open>sampleRegions\<close>
  returns the position generated by that region and that region's colour; the loop
  never runs to its end, so the fallback (origin, white) is not returned.
\<close>

theorem sampleRegions_weighted:
  assumes "\<forall>r \<in> set regions. 0 \<le> weight r"
    and "0 < totalWeight regions"
    and "uniform01 rs"
  shows "let u = rs 0 * totalWeight regions in
           0 \<le> u \<and> u < totalWeight regions
           \<and> (\<exists>!k. in_interval regions u k)
           \<and> (\<forall>k. in_interval regions u k \<longrightarrow>
                  sampleLoop regions u = Some (regions ! k)
                  \<and> sampleRegions regions rs =
                      ((fst (generator (regions ! k) (rdrop 1 rs)), color (regions ! k)),
                       snd (generator (regions ! k) (rdrop 1 rs))))
           \<and> sampleLoop regions u \<noteq> None"
proof -
  let ?T = "totalWeight regions"
  let ?u = "rs 0 * ?T"
  have d: "0 \<le> rs 0" "rs 0 < 1"
    using assms(3) uniform01_nth by blast+
  have u0: "0 \<le> ?u"
    using assms(2) d(1) by simp
  have "?u < 1 * ?T"
    using assms(2) d(2) by (intro mult_strict_right_mono) simp_all
  then have u1: "?u < ?T" by simp
  then have u1': "?u < sum_list (map weight regions)"
    by (simp add: totalWeight_sum)
  from sampleLoop_picks [OF assms(1) u0 u1'] obtain k where
    k: "in_interval regions ?u k" "sampleLoop regions ?u = Some (regions ! k)"
    unfolding in_interval_def by blast
  have uniq: "j = k" if "in_interval regions ?u j" for j
    using interval_unique [OF assms(1)] that k(1) unfolding in_interval_def by blast
  have one: "\<exists>!k. in_interval regions ?u k"
    using k(1) uniq by blast
  have res: "\<forall>k. in_interval regions ?u k \<longrightarrow>
           sampleLoop regions ?u = Some (regions ! k)
           \<and> sampleRegions regions rs =
               ((fst (generator (regions ! k) (rdrop 1 rs)), color (regions ! k)),
                snd (generator (regions ! k) (rdrop 1 rs)))"
    using k(2) uniq
    by (auto simp add: sampleRegions_def Let_def split: prod.splits)
  have "sampleLoop regions ?u \<noteq> None"
    using k(2) by simp
  with u0 u1 one res show ?thesis
    unfolding Let_def by blast
qed

theorem sampleRegions_weighted_witness:
  "list_all (\<lambda>r. 0 \<le> weight r)
     [\<lparr>weight = 4, generator = getRandomSpherePoint 1, color = PALETTE_white\<rparr>,
      \<lparr>weight = 7, generator = getRandomSpherePoint 2, color = PALETTE_red\<rparr>]
   \<and> 0 < totalWeight [\<lparr>weight = 4, generator = getRandomSpherePoint 1, color = PALETTE_white\<rparr>,
                      \<lparr>weight = 7, generator = getRandomSpherePoint 2, color = PALETTE_red\<rparr>]
   \<and> uniform01 (const_draws (1 / 2))
   \<and> in_interval [\<lparr>weight = 4, generator = getRandomSpherePoint 1, color = PALETTE_white\<rparr>,
                   \<lparr>weight = 7, generator = getRandomSpherePoint 2, color = PALETTE_red\<rparr>]
         (11 / 2) 1
   \<and> snd (fst (sampleRegions
         [\<lparr>weight = 4, generator = getRandomSpherePoint 1, color = PALETTE_white\<rparr>,
          \<lparr>weight = 7, generator = getRandomSpherePoint 2, color = PALETTE_red\<rparr>]
         (const_draws (1 / 2)))) = PALETTE_red"
proof -
  let ?R = "[\<lparr>weight = 4, generator = getRandomSpherePoint 1, color = PALETTE_white\<rparr>,
             \<lparr>weight = 7, generator = getRandomSpherePoint 2, color = PALETTE_red\<rparr>]"
  have w: "\<forall>r \<in> set ?R. 0 \<le> weight r"
    by simp
  have t: "totalWeight ?R = 11"
    by (simp add: totalWeight_def)
  have u: "uniform01 (const_draws (1 / 2))"
    by (simp add: uniform01_const)
  have d: "const_draws (1 / 2) 0 * totalWeight ?R = 11 / 2"
    by (simp add: t const_draws_def)
  have i: "in_interval ?R (11 / 2) 1"
    by (simp add: in_interval_def cumWeight_def)
  have pos: "0 < totalWeight ?R"
    by (simp add: t)
  have "\<forall>k. in_interval ?R (const_draws (1 / 2) 0 * totalWeight ?R) k \<longrightarrow>
      sampleRegions ?R (const_draws (1 / 2)) =
        ((fst (generator (?R ! k) (rdrop 1 (const_draws (1 / 2)))), color (?R ! k)),
         snd (generator (?R ! k) (rdrop 1 (const_draws (1 / 2)))))"
    using sampleRegions_weighted [OF w pos u] unfolding Let_def by blast
  then have "in_interval ?R (11 / 2) 1 \<longrightarrow>
      sampleRegions ?R (const_draws (1 / 2)) =
        ((fst (generator (?R ! 1) (rdrop 1 (const_draws (1 / 2)))), color (?R ! 1)),
         snd (generator (?R ! 1) (rdrop 1 (const_draws (1 / 2)))))"
    unfolding d by blast
  with i have "sampleRegions ?R (const_draws (1 / 2)) =
        ((fst (generator (?R ! 1) (rdrop 1 (const_draws (1 / 2)))), color (?R ! 1)),
         snd (generator (?R ! 1) (rdrop 1 (const_draws (1 / 2)))))"
    by blast
  then have "snd (fst (sampleRegions ?R (const_draws (1 / 2)))) = PALETTE_red"
    by simp
  then show ?thesis
    using w pos u i by (simp add: list_all_iff)
qed

text \<open>
  C4. For a frame with (at least) the 21 landmarks of a hand, the classifier assigns
  exactly one pose, one of ROTATE, PEACE_ZOOM, LIKE_SNAP, FIST, OPEN and IDLE; two frames
  with the same five extension ratios and the same outcome of the comparison of the
  thumb tip's \<open>y\<close> with the thumb IP's \<open>y\<close> get the same pose (a ratio being the distance
  of the fingertip from the wrist divided by the hand size); a frame classified FIST has
  its four non-thumb ratios below 1.0, one classified OPEN has them above 1.3, and no
  frame satisfies both rules.
\<close>

theorem rawPose_rules:
  assumes "21 \<le> length lm" and "21 \<le> length lm'"
  shows "(\<exists>!p. p \<in> {ROTATE, PEACE_ZOOM, LIKE_SNAP, FIST, OPEN, IDLE} \<and> rawPose lm = Inr p)
         \<and> (same_features lm lm' \<longrightarrow> rawPose lm = rawPose lm')
         \<and> (handSize lm \<noteq> 0 \<longrightarrow>
              (\<forall>idx. getExt lm idx =
                 Math_hypot (lx (lm ! idx) - lx (lm ! 0)) (ly (lm ! idx) - ly (lm ! 0))
                 / handSize lm))
         \<and> (rawPose lm = Inr FIST \<longrightarrow> fist_rule lm)
         \<and> (rawPose lm = Inr OPEN \<longrightarrow> open_rule lm)
         \<and> \<not> (fist_rule lm \<and> open_rule lm)"
proof -
  have "\<exists>p \<in> {ROTATE, PEACE_ZOOM, LIKE_SNAP, FIST, OPEN, IDLE}. rawPose lm = Inr p"
    using assms(1) by (simp add: rawPose_def Let_def)
  then have a: "\<exists>!p. p \<in> {ROTATE, PEACE_ZOOM, LIKE_SNAP, FIST, OPEN, IDLE} \<and> rawPose lm = Inr p"
    by (metis sum.inject(2))
  have b: "same_features lm lm' \<longrightarrow> rawPose lm = rawPose lm'"
  proof
    assume "same_features lm lm'"
    then have e: "getExt lm 4 = getExt lm' 4" "getExt lm 8 = getExt lm' 8"
        "getExt lm 12 = getExt lm' 12" "getExt lm 16 = getExt lm' 16"
        "getExt lm 20 = getExt lm' 20"
        "(ly (lm ! 4) < ly (lm ! 3)) = (ly (lm' ! 4) < ly (lm' ! 3))"
      by (simp_all add: same_features_def)
    have l: "\<not> length lm < 21" "\<not> length lm' < 21"
      using assms by simp_all
    show "rawPose lm = rawPose lm'"
      by (simp only: rawPose_def Let_def e l if_False)
  qed
  have r: "handSize lm \<noteq> 0 \<longrightarrow>
      (\<forall>idx. getExt lm idx =
         Math_hypot (lx (lm ! idx) - lx (lm ! 0)) (ly (lm ! idx) - ly (lm ! 0)) / handSize lm)"
    by (simp add: getExt_def Let_def)
  have c: "rawPose lm = Inr FIST \<longrightarrow> fist_rule lm"
    using assms(1)
    by (simp add: rawPose_def fist_rule_def Let_def EXT_TH_def CURL_TH_def split: if_splits)
  have d: "rawPose lm = Inr OPEN \<longrightarrow> open_rule lm"
    using assms(1)
    by (simp add: rawPose_def open_rule_def Let_def EXT_TH_def CURL_TH_def split: if_splits)
  have e: "\<not> (fist_rule lm \<and> open_rule lm)"
    by (simp add: fist_rule_def open_rule_def)
  from a b r c d e show ?thesis by blast
qed

theorem rawPose_rules_witness:
  "21 \<le> length fistHand \<and> 21 \<le> length idleHand
   \<and> rawPose fistHand = Inr FIST \<and> fist_rule fistHand
   \<and> \<not> (fist_rule fistHand \<and> open_rule fistHand)"
proof -
  have l: "21 \<le> length fistHand" "21 \<le> length idleHand"
    by (simp_all add: fistHand_def idleHand_def)
  have p: "rawPose fistHand = Inr FIST"
    by (simp add: fistHand_def rawPose_def getExt_def handSize_def hypot_zero Let_def
        EXT_TH_def CURL_TH_def THUMB_EXT_TH_def)
  show ?thesis
    using rawPose_rules [OF l] l p by blast
qed

text \<open>
  C6, as stated, on the session \<open>flickerTrace\<close>: the confirmed poses are IDLE, FIST, IDLE,
  FIST at the times 0, 10, 20 and 400 ms, and the last frame sets the app state to
  FORMED (the hold started at 10 ms and a confirmed IDLE does not reset it), although
  the confirmed pose was IDLE at 20 ms, so FIST was not confirmed continuously for more
  than 300 ms.
\<close>

theorem hold_not_continuous:
  "run_ok flickerTrace
   \<and> map gesture (run_effects flickerTrace) = [IDLE, FIST, IDLE, FIST]
   \<and> appStateSet (run_effects flickerTrace ! 3) = Some FORMED
   \<and> \<not> continuously FIST flickerTrace (run_effects flickerTrace) 3"
proof -
  let ?es = "run_effects flickerTrace"
  have e: "run_ok flickerTrace" "map gesture ?es = [IDLE, FIST, IDLE, FIST]"
      "map appStateSet ?es = [None, None, None, Some FORMED]"
    using flicker_effects by simp_all
  have "length (map gesture ?es) = 4"
    by (simp only: e(2)) simp
  then have len: "length ?es = 4"
    by simp
  have "gesture (?es ! 2) = map gesture ?es ! 2"
    using len by simp
  also have "\<dots> = IDLE"
    by (simp only: e(2)) simp
  finally have g2: "gesture (?es ! 2) = IDLE" .
  have "appStateSet (?es ! 3) = map appStateSet ?es ! 3"
    using len by simp
  also have "\<dots> = Some FORMED"
    by (simp only: e(3)) simp
  finally have a3: "appStateSet (?es ! 3) = Some FORMED" .
  have nc: "\<not> continuously FIST flickerTrace ?es 3"
  proof
    assume "continuously FIST flickerTrace ?es 3"
    then obtain m where m: "m \<le> 3"
        "now (flickerTrace ! 3) - now (flickerTrace ! m) > 300"
        "\<forall>j \<in> {m..3}. gesture (?es ! j) = FIST"
      unfolding continuously_def by auto
    show False
    proof (cases "m = 3")
      case True
      with m(2) show False by simp
    next
      case False
      with m(1) have "2 \<in> {m..3}" by simp
      with m(3) have "gesture (?es ! 2) = FIST" by blast
      with g2 show False by simp
    qed
  qed
  from e(1,2) a3 nc show ?thesis by simp
qed

text \<open>
  C6, amended. In a session that starts from the initial refs, on frames whose hand
  has 21 landmarks, the handler never throws, and for every frame \<open>n\<close>: the app state is
  set to FORMED only if the confirmed pose of frame \<open>n\<close> is FIST and some earlier frame,
  more than 300 ms before, had confirmed pose FIST with only FIST or IDLE confirmed in
  between (a frame without a hand counts as IDLE); it is set to CHAOS only under the
  same condition with OPEN; and a frame whose confirmed pose is ROTATE, PEACE_ZOOM,
  LIKE_SNAP or IDLE does not set the app state.
\<close>

theorem gesture_state_changes:
  assumes "\<forall>f \<in> set fs. hand_frame_ok f" and "n < length fs"
  shows "run_ok fs \<and> state_change_justified fs (run_effects fs) n"
proof -
  from run_total [OF lm_ok_init assms(1)] obtain r es where r: "run init_refs fs = Inr (r, es)"
    by fastforce
  then have "run_ok fs" "run_effects fs = es"
    by (simp_all add: run_ok_def run_effects_def)
  with run_invariant [OF r] assms(2) show ?thesis
    by simp
qed

theorem gesture_state_changes_witness:
  "list_all hand_frame_ok flickerTrace \<and> 3 < length flickerTrace
   \<and> run_ok flickerTrace \<and> state_change_justified flickerTrace (run_effects flickerTrace) 3"
proof -
  have "\<forall>f \<in> set flickerTrace. hand_frame_ok f"
    by (simp add: flickerTrace_def hand_frame_ok_def fistHand_def idleHand_def)
  moreover have "3 < length flickerTrace"
    by (simp add: flickerTrace_def)
  ultimately show ?thesis
    using gesture_state_changes [of flickerTrace 3] by (simp add: list_all_iff)
qed

text \<open>
  C1. In a frame of the mounted foliage system, for every particle index \<open>i\<close> and every
  coordinate \<open>k\<close>, the new stored position is the old one plus
  \<open>(target - old) * lerpSpeed\<close>, where
  \<open>lerpSpeed = speeds[i] * delta * 60 * config.particles.speed\<close>, times 3 in the firework
  case, and the target is the formation target when the state is FORMED, the firework
  position when the state is not FORMED and the formation is GIFT, and the chaos
  position otherwise. When \<open>lerpSpeed\<close> is in \<open>[0, 1]\<close> the new position is the convex
  combination \<open>(1 - lerpSpeed) * old + lerpSpeed * target\<close>, between the old position and
  the target.
\<close>

theorem useFrame_morph:
  assumes "pointsRef = Some pts" and "materialUniforms pts" and "arrays_allocated d pts"
    and "i < count d" and "k < 3"
  shows "\<exists>pts'. useFrame d a pointsRef = Some pts'
           \<and> (let old = positionArray pts ! (i * 3 + k);
                   new = positionArray pts' ! (i * 3 + k);
                   firework = (state a \<noteq> FORMED \<and> formation a = GIFT);
                   target = (if state a = FORMED then targetPositions d ! (i * 3 + k)
                             else if firework then fireworkPositions d ! (i * 3 + k)
                             else chaosPositions d ! (i * 3 + k));
                   lerpSpeed = speeds d ! i * delta a * 60 * particleSpeed a
                               * (if firework then 3.0 else 1)
               in new = old + (target - old) * lerpSpeed
                  \<and> (0 \<le> lerpSpeed \<and> lerpSpeed \<le> 1 \<longrightarrow>
                       new = (1 - lerpSpeed) * old + lerpSpeed * target
                       \<and> min old target \<le> new \<and> new \<le> max old target))"
proof -
  let ?q = "i * 3 + k"
  let ?r = "frameLoop d a 0 (positionArray pts, colorArray pts)"
  have q: "?q < length (positionArray pts)" "?q div 3 = i"
    using assms(3,4,5) by (simp_all add: arrays_allocated_def)
  have "fst ?r ! ?q = lerped d a (positionArray pts) ?q"
    using frameLoop_pos [of d a 0 "(positionArray pts, colorArray pts)"] q assms(4) by simp
  then have new: "fst ?r ! ?q = positionArray pts ! ?q
      + (targetCoord d a ?q - positionArray pts ! ?q) * lerpSpeed d a i"
    by (simp add: lerped_def q(2))
  have u: "useFrame d a pointsRef = Some (pts\<lparr>positionArray := fst ?r, colorArray := snd ?r\<rparr>)"
    using assms(1,2) by (simp add: useFrame_def Let_def)
  define firework where "firework = (state a \<noteq> FORMED \<and> formation a = GIFT)"
  define target where "target = (if state a = FORMED then targetPositions d ! ?q
      else if firework then fireworkPositions d ! ?q else chaosPositions d ! ?q)"
  define ls where "ls = speeds d ! i * delta a * 60 * particleSpeed a
      * (if firework then 3.0 else 1)"
  define old where "old = positionArray pts ! ?q"
  have t: "targetCoord d a ?q = target"
    by (simp add: targetCoord_def target_def firework_def isFormed_def isFirework_def)
  have l: "lerpSpeed d a i = ls"
    by (simp add: lerpSpeed_def lerpSpeedBase_def ls_def firework_def isFormed_def
        isFirework_def)
  have n: "fst ?r ! ?q = old + (target - old) * ls"
    using new by (simp add: t l old_def)
  have c: "old + (target - old) * ls = (1 - ls) * old + ls * target"
    by (simp add: algebra_simps)
  have b: "0 \<le> ls \<and> ls \<le> 1 \<longrightarrow>
      min old target \<le> old + (target - old) * ls \<and> old + (target - old) * ls \<le> max old target"
    using lerp_between [of ls old target] by simp
  have "let old = positionArray pts ! ?q;
            new = positionArray (pts\<lparr>positionArray := fst ?r, colorArray := snd ?r\<rparr>) ! ?q;
            firework = (state a \<noteq> FORMED \<and> formation a = GIFT);
            target = (if state a = FORMED then targetPositions d ! ?q
                      else if firework then fireworkPositions d ! ?q
                      else chaosPositions d ! ?q);
            lerpSpeed = speeds d ! i * delta a * 60 * particleSpeed a
                        * (if firework then 3.0 else 1)
        in new = old + (target - old) * lerpSpeed
           \<and> (0 \<le> lerpSpeed \<and> lerpSpeed \<le> 1 \<longrightarrow>
                new = (1 - lerpSpeed) * old + lerpSpeed * target
                \<and> min old target \<le> new \<and> new \<le> max old target)"
    unfolding Let_def
    using n c b
    unfolding old_def ls_def target_def firework_def
    by simp
  with u show ?thesis
    by blast
qed

theorem useFrame_morph_witness:
  "materialUniforms points_example \<and> arrays_allocated foliage_example points_example
   \<and> 1 < count foliage_example \<and> (2::nat) < 3
   \<and> (\<exists>pts'. useFrame foliage_example frame_example (Some points_example) = Some pts'
          \<and> positionArray pts' ! 5 = 8 + (6 - 8) * (1 / 40))"
  using useFrame_morph [of "Some points_example" points_example foliage_example 1 2 frame_example]
  by (auto simp add: points_example_def foliage_example_def frame_example_def
      arrays_allocated_def Let_def)




text \<open>
  C7. For every particle index the switch of the target computation gives the point and
  colour of the generator of the selected formation: \<open>getHatPoint\<close> for HAT;
  \<open>getStockingPoint\<close> for STOCKING, the position scaled by 1.1 and the colour
  post-processed by \<open>postProcessStockingColor\<close> at the scaled position; \<open>getSantaPoint\<close> for
  SANTA, the position scaled by 1.1; \<open>getGiftPoint\<close> for GIFT; \<open>getElkPoint\<close> for ELK; the
  text/logo generator \<open>getDynamicTextPoint\<close> for TEXT, ANKERMAKER, ANKER, SOUNDCORE and
  EUFY; and for the tree formations (TREE being the default case) the position of
  \<open>getTreePoint\<close> with the configured tree parameters and offset \<open>-2\<close>, with a colour the
  switch picks. The loop runs the switch for every particle \<open>j < count\<close>, never fails,
  and stores that point and that colour's channels at the particle's three entries.
\<close>

theorem formation_dispatch:
  "formationTarget config logos canvas HAT i n st
     = Inr (fst (getHatPoint (fst st)), (snd (getHatPoint (fst st)), snd st))
   \<and> (let d = fst (getStockingPoint (fst st)); pt = multiplyScalar (fst d) 1.1
      in formationTarget config logos canvas STOCKING i n st
           = Inr ((pt, postProcessStockingColor pt (snd d)),
                  (snd (getStockingPoint (fst st)), snd st)))
   \<and> (let d = fst (getSantaPoint (fst st))
      in formationTarget config logos canvas SANTA i n st
           = Inr ((multiplyScalar (fst d) 1.1, snd d), (snd (getSantaPoint (fst st)), snd st)))
   \<and> formationTarget config logos canvas GIFT i n st
       = Inr (fst (getGiftPoint (fst st)), (snd (getGiftPoint (fst st)), snd st))
   \<and> formationTarget config logos canvas ELK i n st
       = Inr (fst (getElkPoint (fst st)), (snd (getElkPoint (fst st)), snd st))
   \<and> (formation' \<in> {TEXT, ANKERMAKER, ANKER, SOUNDCORE, EUFY} \<longrightarrow>
        formationTarget config logos canvas formation' i n st
          = getDynamicTextPoint config logos canvas formation' i n st)
   \<and> (formation' \<in> {TREE, PINK_TREE, RED_TREE} \<longrightarrow>
        (\<exists>c st'. formationTarget config logos canvas formation' i n st
           = Inr ((fst (getTreePoint (tree_height (config_tree config))
                          (tree_radius (config_tree config)) (tree_spirals (config_tree config))
                          (tree_spiralTightness (config_tree config)) (- 2)
                          (tree_densityBias (config_tree config)) (fst st)), c), st')))
   \<and> (length tPos = n * 3 \<and> length tCol = n * 3 \<longrightarrow>
        (\<exists>arrays' sf.
           targetLoop config logos canvas rgb formation' n 0 st (tPos, tCol) = Inr (arrays', sf)
           \<and> (\<forall>j < n. \<exists>sj d sj'.
                 stateBefore config logos canvas formation' n st j = Inr sj
                 \<and> formationTarget config logos canvas formation' j n sj = Inr (d, sj')
                 \<and> stored_target rgb arrays' j d)))"
proof -
  have hat: "formationTarget config logos canvas HAT i n st
     = Inr (fst (getHatPoint (fst st)), (snd (getHatPoint (fst st)), snd st))"
    by (simp add: formationTarget_def Let_def split: prod.splits)
  have stocking: "let d = fst (getStockingPoint (fst st)); pt = multiplyScalar (fst d) 1.1
      in formationTarget config logos canvas STOCKING i n st
           = Inr ((pt, postProcessStockingColor pt (snd d)),
                  (snd (getStockingPoint (fst st)), snd st))"
    by (simp add: formationTarget_def Let_def split: prod.splits)
  have santa: "let d = fst (getSantaPoint (fst st))
      in formationTarget config logos canvas SANTA i n st
           = Inr ((multiplyScalar (fst d) 1.1, snd d), (snd (getSantaPoint (fst st)), snd st))"
    by (simp add: formationTarget_def Let_def split: prod.splits)
  have gift: "formationTarget config logos canvas GIFT i n st
       = Inr (fst (getGiftPoint (fst st)), (snd (getGiftPoint (fst st)), snd st))"
    by (simp add: formationTarget_def Let_def postProcessGiftColor_def split: prod.splits)
  have elk: "formationTarget config logos canvas ELK i n st
       = Inr (fst (getElkPoint (fst st)), (snd (getElkPoint (fst st)), snd st))"
    by (simp add: formationTarget_def Let_def split: prod.splits)
  have textual: "formation' \<in> {TEXT, ANKERMAKER, ANKER, SOUNDCORE, EUFY} \<longrightarrow>
        formationTarget config logos canvas formation' i n st
          = getDynamicTextPoint config logos canvas formation' i n st"
    by (auto simp add: formationTarget_def Let_def)
  have tree: "formation' \<in> {TREE, PINK_TREE, RED_TREE} \<longrightarrow>
        (\<exists>c st'. formationTarget config logos canvas formation' i n st
           = Inr ((fst (getTreePoint (tree_height (config_tree config))
                          (tree_radius (config_tree config)) (tree_spirals (config_tree config))
                          (tree_spiralTightness (config_tree config)) (- 2)
                          (tree_densityBias (config_tree config)) (fst st)), c), st'))"
    by (auto simp add: formationTarget_def configuredTreePoint_def Let_def split: prod.splits)
  have loop: "length tPos = n * 3 \<and> length tCol = n * 3 \<longrightarrow>
        (\<exists>arrays' sf.
           targetLoop config logos canvas rgb formation' n 0 st (tPos, tCol) = Inr (arrays', sf)
           \<and> (\<forall>j < n. \<exists>sj d sj'.
                 stateBefore config logos canvas formation' n st j = Inr sj
                 \<and> formationTarget config logos canvas formation' j n sj = Inr (d, sj')
                 \<and> stored_target rgb arrays' j d))"
  proof
    assume l: "length tPos = n * 3 \<and> length tCol = n * 3"
    have s0: "stateBefore config logos canvas formation' n st 0 = Inr st"
      by simp
    from targetLoop_spec [OF s0, of "(tPos, tCol)" rgb] l
    obtain arrays' sf where
      "targetLoop config logos canvas rgb formation' n 0 st (tPos, tCol) = Inr (arrays', sf)"
      "\<forall>j. 0 \<le> j \<and> j < n \<longrightarrow>
         (\<exists>sj d sj'. stateBefore config logos canvas formation' n st j = Inr sj
            \<and> formationTarget config logos canvas formation' j n sj = Inr (d, sj')
            \<and> stored_target rgb arrays' j d)"
      by auto
    then show "\<exists>arrays' sf.
           targetLoop config logos canvas rgb formation' n 0 st (tPos, tCol) = Inr (arrays', sf)
           \<and> (\<forall>j < n. \<exists>sj d sj'.
                 stateBefore config logos canvas formation' n st j = Inr sj
                 \<and> formationTarget config logos canvas formation' j n sj = Inr (d, sj')
                 \<and> stored_target rgb arrays' j d)"
      by auto
  qed
  from hat stocking santa gift elk textual tree loop show ?thesis
    by (intro conjI)
qed

theorem formation_dispatch_witness:
  "ANKER \<in> {TEXT, ANKERMAKER, ANKER, SOUNDCORE, EUFY}
   \<and> formationTarget config_example Map.empty (Some canvas_example) ANKER 1 2
        (const_draws (1 / 2), Map.empty)
      = getDynamicTextPoint config_example Map.empty (Some canvas_example) ANKER 1 2
          (const_draws (1 / 2), Map.empty)
   \<and> length [0, 0, 0, 0, 0, 0 :: real] = 2 * 3
   \<and> (\<exists>arrays' sf.
         targetLoop config_example Map.empty (Some canvas_example) rgb_example ANKER 2 0
           (const_draws (1 / 2), Map.empty) ([0, 0, 0, 0, 0, 0], [0, 0, 0, 0, 0, 0])
         = Inr (arrays', sf)
         \<and> (\<exists>sj d sj'.
               stateBefore config_example Map.empty (Some canvas_example) ANKER 2
                 (const_draws (1 / 2), Map.empty) 1 = Inr sj
               \<and> formationTarget config_example Map.empty (Some canvas_example) ANKER 1 2 sj
                   = Inr (d, sj')
               \<and> stored_target rgb_example arrays' 1 d))"
proof -
  let ?st = "(const_draws (1 / 2), Map.empty :: point_cache)"
  note d = formation_dispatch [where config = config_example and logos = Map.empty
      and canvas = "Some canvas_example" and formation' = ANKER and n = 2 and st = ?st
      and rgb = rgb_example and tPos = "[0, 0, 0, 0, 0, 0]" and tCol = "[0, 0, 0, 0, 0, 0]"]
  have a: "formationTarget config_example Map.empty (Some canvas_example) ANKER 1 2 ?st
      = getDynamicTextPoint config_example Map.empty (Some canvas_example) ANKER 1 2 ?st"
    using d [where i = 1] by simp
  have "\<exists>arrays' sf.
         targetLoop config_example Map.empty (Some canvas_example) rgb_example ANKER 2 0
           ?st ([0, 0, 0, 0, 0, 0], [0, 0, 0, 0, 0, 0]) = Inr (arrays', sf)
         \<and> (\<forall>j < 2. \<exists>sj d sj'.
               stateBefore config_example Map.empty (Some canvas_example) ANKER 2 ?st j = Inr sj
               \<and> formationTarget config_example Map.empty (Some canvas_example) ANKER j 2 sj
                   = Inr (d, sj')
               \<and> stored_target rgb_example arrays' j d)"
    using d [where i = 0] by simp
  then obtain arrays' sf where l:
      "targetLoop config_example Map.empty (Some canvas_example) rgb_example ANKER 2 0
           ?st ([0, 0, 0, 0, 0, 0], [0, 0, 0, 0, 0, 0]) = Inr (arrays', sf)"
      "\<forall>j < 2. \<exists>sj d sj'.
               stateBefore config_example Map.empty (Some canvas_example) ANKER 2 ?st j = Inr sj
               \<and> formationTarget config_example Map.empty (Some canvas_example) ANKER j 2 sj
                   = Inr (d, sj')
               \<and> stored_target rgb_example arrays' j d"
    by blast
  have "(1::nat) < 2"
    by simp
  with l(2) have "\<exists>sj d sj'.
               stateBefore config_example Map.empty (Some canvas_example) ANKER 2 ?st 1 = Inr sj
               \<and> formationTarget config_example Map.empty (Some canvas_example) ANKER 1 2 sj
                   = Inr (d, sj')
               \<and> stored_target rgb_example arrays' 1 d"
    by blast
  with l(1) a show ?thesis
    by auto
qed


end
